theory Spec2Isabelle
  imports Complex_Main "HOL-Library.AList"
begin

section \<open>Python values\<close>

text \<open>
  The program is Python: its states, payloads and capability results are dictionaries of
  dynamically typed values. A value is a \<open>pyval\<close>. A dictionary is an association list
  with string keys, in insertion order (the order \<open>items()\<close> iterates in); a key is
  looked up with \<open>map_of\<close> and assigned with \<open>AList.update\<close>, which keeps the place of a
  key that exists and appends a new one.

  Lists are values (\<open>PList\<close>) wherever the program only reads them. The two lists that
  the state manager mutates in place through several aliases, \<open>execution_log\<close> and
  \<open>errors\<close>, are list objects: a \<open>PRef a\<close> is the list object at address \<open>a\<close> of the
  manager's store.

  A \<open>datetime\<close> is a reading of \<open>datetime.now()\<close>: its position in microseconds and
  the two renderings the program takes of it, \<open>strftime('%Y%m%d')\<close> and \<open>isoformat()\<close>.
  A float is the rational number it denotes (infinities and NaN are not modelled); a
  decimal that the source writes for a float is the float nearest to it
  (\<open>nearest_float\<close> below). A string has one \<open>char\<close> for each code point, which
  leaves out the code points beyond 255.
\<close>

datatype datetime = Datetime (micros: int) (ymd: string) (isoformat: string)

datatype StageStatus = PENDING | IN_PROGRESS | COMPLETED | FAILED | SKIPPED

datatype pyval =
    PNone
  | PBool bool
  | PInt int
  | PFloat rat
  | PStr string
  | PList "pyval list"
  | PDict "(string \<times> pyval) list"
  | PTime datetime
  | PRef nat
  | PLog ExecutionLog
and ExecutionLog =
  ExecutionLog
    (stage_id: int)
    (stage_name: string)
    (timestamp: datetime)
    (status: StageStatus)
    (abilities_executed: "string list")
    (server_used: "string option")
    (duration_ms: "int option")
    (error_message: "string option")
    (log_output: "(string \<times> pyval) list option")

type_synonym dict = "(string \<times> pyval) list"

type_synonym AgentState = "(string \<times> pyval) list"

text \<open>
  Exceptions are values; the string is what \<open>str(e)\<close> gives. A \<open>ValidationError\<close> is
  pydantic's, for one field: it holds the name of the model and the name of the field
  that is refused. Its \<open>str(e)\<close> begins with the two lines
  \<open>1 validation error for <model>\<close> and \<open><field>\<close> and goes on with a description
  whose wording depends on the version of pydantic; \<open>str_of_error\<close> gives the two
  lines only.
\<close>

datatype error =
    ValueError string
  | Exception string
  | AttributeError string
  | KeyError string
  | TypeError string
  | IndexError string
  | UnboundLocalError string
  | ValidationError string string

fun str_of_error :: "error \<Rightarrow> string" where
  "str_of_error (ValueError m) = m"
| "str_of_error (Exception m) = m"
| "str_of_error (AttributeError m) = m"
| "str_of_error (KeyError m) = m"
| "str_of_error (TypeError m) = m"
| "str_of_error (IndexError m) = m"
| "str_of_error (UnboundLocalError m) = m"
| "str_of_error (ValidationError m field) = ''1 validation error for '' @ m @ [CHR 10] @ field"

definition bindE :: "'e + 'a \<Rightarrow> ('a \<Rightarrow> 'e + 'b) \<Rightarrow> 'e + 'b" where
  "bindE r f = (case r of Inl e \<Rightarrow> Inl e | Inr v \<Rightarrow> f v)"

fun type_name :: "pyval \<Rightarrow> string" where
  "type_name PNone = ''NoneType''"
| "type_name (PBool b) = ''bool''"
| "type_name (PInt i) = ''int''"
| "type_name (PFloat q) = ''float''"
| "type_name (PStr s) = ''str''"
| "type_name (PList xs) = ''list''"
| "type_name (PDict d) = ''dict''"
| "type_name (PTime t) = ''datetime.datetime''"
| "type_name (PRef a) = ''list''"
| "type_name (PLog l) = ''ExecutionLog''"

definition no_attribute :: "pyval \<Rightarrow> string \<Rightarrow> error" where
  "no_attribute v attr =
     AttributeError ([CHR 39] @ type_name v @ [CHR 39] @ '' object has no attribute ''
                     @ [CHR 39] @ attr @ [CHR 39])"

text \<open>Truth value of an object; a list object is true when it is not empty.\<close>

fun truthy :: "(nat \<Rightarrow> pyval list) \<Rightarrow> pyval \<Rightarrow> bool" where
  "truthy h PNone = False"
| "truthy h (PBool b) = b"
| "truthy h (PInt i) = (i \<noteq> 0)"
| "truthy h (PFloat q) = (q \<noteq> 0)"
| "truthy h (PStr s) = (s \<noteq> [])"
| "truthy h (PList xs) = (xs \<noteq> [])"
| "truthy h (PDict d) = (d \<noteq> [])"
| "truthy h (PTime t) = True"
| "truthy h (PRef a) = (h a \<noteq> [])"
| "truthy h (PLog l) = True"

text \<open>\<open>d.get(key, default)\<close> and \<open>d[key]\<close> with a literal key.\<close>

definition py_get :: "pyval \<Rightarrow> string \<Rightarrow> pyval \<Rightarrow> error + pyval" where
  "py_get obj key dflt =
     (case obj of
        PDict d \<Rightarrow> Inr (case map_of d key of None \<Rightarrow> dflt | Some v \<Rightarrow> v)
      | _ \<Rightarrow> Inl (no_attribute obj ''get''))"

definition state_get :: "AgentState \<Rightarrow> string \<Rightarrow> pyval \<Rightarrow> pyval" where
  "state_get st key dflt = (case map_of st key of None \<Rightarrow> dflt | Some v \<Rightarrow> v)"

definition state_item :: "AgentState \<Rightarrow> string \<Rightarrow> error + pyval" where
  "state_item st key =
     (case map_of st key of
        None \<Rightarrow> Inl (KeyError ([CHR 39] @ key @ [CHR 39]))
      | Some v \<Rightarrow> Inr v)"

section \<open>The state manager\<close>

text \<open>
  \<open>StateManager._state_history\<close> maps a session id to the list of its state versions.
  \<open>store\<close> holds the list objects and \<open>fresh\<close> is the next unused address.
\<close>

record StateManager =
  state_history :: "string \<rightharpoonup> AgentState list"
  store :: "nat \<Rightarrow> pyval list"
  fresh :: nat

definition StateManager_init :: StateManager where
  "StateManager_init = \<lparr>state_history = Map.empty, store = (\<lambda>a. []), fresh = 0\<rparr>"

definition alloc :: "pyval list \<Rightarrow> StateManager \<Rightarrow> nat \<times> StateManager" where
  "alloc xs sm = (fresh sm, sm\<lparr>store := (store sm)(fresh sm := xs), fresh := Suc (fresh sm)\<rparr>)"

text \<open>
  \<open>target.append(x)\<close>. Only a list object has \<open>append\<close>; a list value does not occur in
  a place that is appended to, since \<open>list_object\<close> below turns it into an object when
  it is stored there.
\<close>

definition py_append :: "pyval \<Rightarrow> pyval \<Rightarrow> StateManager \<Rightarrow> error + StateManager" where
  "py_append target x sm =
     (case target of
        PRef a \<Rightarrow> Inr (sm\<lparr>store := (store sm)(a := store sm a @ [x])\<rparr>)
      | _ \<Rightarrow> Inl (no_attribute target ''append''))"

definition list_object :: "string \<Rightarrow> pyval \<Rightarrow> StateManager \<Rightarrow> pyval \<times> StateManager" where
  "list_object key v sm =
     (if key = ''execution_log'' \<or> key = ''errors'' then
        (case v of
           PList xs \<Rightarrow> (let (a, sm') = alloc xs sm in (PRef a, sm'))
         | _ \<Rightarrow> (v, sm))
      else (v, sm))"

text \<open>
  \<open>create_initial_state\<close>. \<open>sid\<close> is the string \<open>str(uuid.uuid4())\<close> drawn by the call
  and \<open>now\<close> its clock reading.
\<close>

definition create_initial_state ::
  "StateManager \<Rightarrow> string \<Rightarrow> datetime \<Rightarrow> pyval \<Rightarrow> pyval \<Rightarrow> pyval \<Rightarrow> pyval \<Rightarrow> pyval
     \<Rightarrow> AgentState \<times> StateManager" where
  "create_initial_state sm sid now customer_name email query priority ticket_id =
     (let session_id = sid;
          current_time = now;
          ticket_id' = (if \<not> truthy (store sm) ticket_id
                        then PStr (''TKT-'' @ ymd current_time @ ''-'' @ take 8 session_id)
                        else ticket_id);
          (l, sm1) = alloc [] sm;
          (e, sm2) = alloc [] sm1;
          initial_state =
            [(''customer_name'', customer_name),
             (''email'', email),
             (''query'', query),
             (''priority'', priority),
             (''ticket_id'', ticket_id'),
             (''parsed_request'', PNone),
             (''extracted_entities'', PNone),
             (''normalized_fields'', PNone),
             (''enriched_records'', PNone),
             (''calculated_flags'', PNone),
             (''clarification_needed'', PNone),
             (''questions_asked'', PNone),
             (''customer_responses'', PNone),
             (''knowledge_base_results'', PNone),
             (''retrieved_solutions'', PNone),
             (''solution_scores'', PNone),
             (''escalation_decision'', PNone),
             (''selected_solution'', PNone),
             (''decision_reasoning'', PNone),
             (''ticket_updates'', PNone),
             (''ticket_status'', PStr ''open''),
             (''generated_response'', PNone),
             (''api_calls_executed'', PNone),
             (''notifications_sent'', PNone),
             (''final_payload'', PNone),
             (''session_id'', PStr session_id),
             (''current_stage'', PStr ''INTAKE''),
             (''execution_log'', PRef l),
             (''created_at'', PTime current_time),
             (''updated_at'', PTime current_time),
             (''errors'', PRef e)]
      in (initial_state, sm2\<lparr>state_history := (state_history sm2)(session_id \<mapsto> [initial_state])\<rparr>))"

text \<open>
  The loop of \<open>update_state\<close> over \<open>updates.items()\<close>, on the copy \<open>current_state\<close>. A
  known key is overwritten. An unknown key appends a note to the list under \<open>errors\<close>
  (\<open>setdefault\<close> puts a new list there when the key is missing); the append raises when
  that value is not a list, and what the loop did before stays done.
\<close>

fun apply_updates ::
  "string \<Rightarrow> (string \<times> pyval) list \<Rightarrow> AgentState \<Rightarrow> StateManager
     \<Rightarrow> (error + AgentState) \<times> StateManager" where
  "apply_updates stage [] current_state sm = (Inr current_state, sm)"
| "apply_updates stage ((key, val) # rest) current_state sm =
     (if map_of current_state key \<noteq> None then
        (let (v, sm') = list_object key val sm
         in apply_updates stage rest (AList.update key v current_state) sm')
      else
        (let note = PStr (''Unknown state key: '' @ key @ '' from stage '' @ stage)
         in case map_of current_state ''errors'' of
              None \<Rightarrow>
                (let (a, sm') = alloc [note] sm
                 in apply_updates stage rest (AList.update ''errors'' (PRef a) current_state) sm')
            | Some errs \<Rightarrow>
                (case py_append errs note sm of
                   Inl err \<Rightarrow> (Inl err, sm)
                 | Inr sm' \<Rightarrow> apply_updates stage rest current_state sm')))"

definition session_not_found :: "string \<Rightarrow> error" where
  "session_not_found sid = ValueError (''Session ID '' @ sid @ '' not found'')"

text \<open>\<open>xs[-1]\<close>\<close>

definition py_last :: "'a list \<Rightarrow> error + 'a" where
  "py_last xs = (if xs = [] then Inl (IndexError ''list index out of range'') else Inr (last xs))"

definition update_state ::
  "StateManager \<Rightarrow> datetime \<Rightarrow> string \<Rightarrow> (string \<times> pyval) list \<Rightarrow> string
     \<Rightarrow> (error + AgentState) \<times> StateManager" where
  "update_state sm now sid updates stage =
     (case state_history sm sid of
        None \<Rightarrow> (Inl (session_not_found sid), sm)
      | Some hist \<Rightarrow>
          (case py_last hist of
             Inl err \<Rightarrow> (Inl err, sm)
           | Inr latest \<Rightarrow>
               (case apply_updates stage updates latest sm of
                  (Inl err, sm') \<Rightarrow> (Inl err, sm')
                | (Inr st1, sm') \<Rightarrow>
                    (let st2 = AList.update ''current_stage'' (PStr stage) st1;
                         st3 = AList.update ''updated_at'' (PTime now) st2
                     in (Inr st3,
                         sm'\<lparr>state_history := (state_history sm')(sid \<mapsto> hist @ [st3])\<rparr>)))))"

definition get_current_state :: "StateManager \<Rightarrow> string \<Rightarrow> error + AgentState" where
  "get_current_state sm sid =
     (case state_history sm sid of
        None \<Rightarrow> Inl (session_not_found sid)
      | Some hist \<Rightarrow> py_last hist)"

definition get_state_history :: "StateManager \<Rightarrow> string \<Rightarrow> AgentState list" where
  "get_state_history sm sid = (case state_history sm sid of None \<Rightarrow> [] | Some hist \<Rightarrow> hist)"

text \<open>
  \<open>log_stage_execution\<close>. The entry is appended to the list under \<open>execution_log\<close> of
  the latest version, and a truthy \<open>error_message\<close> is appended to the list under
  \<open>errors\<close>. \<open>abilities\<close> is \<open>None\<close> or a list of names.
\<close>

definition log_stage_execution ::
  "StateManager \<Rightarrow> datetime \<Rightarrow> string \<Rightarrow> int \<Rightarrow> string \<Rightarrow> StageStatus \<Rightarrow> string list option
     \<Rightarrow> string option \<Rightarrow> int option \<Rightarrow> string option \<Rightarrow> dict option
     \<Rightarrow> (error + unit) \<times> StateManager" where
  "log_stage_execution sm now sid sid_stage sname st abilities server dur err_msg out =
     (case state_history sm sid of
        None \<Rightarrow> (Inl (session_not_found sid), sm)
      | Some hist \<Rightarrow>
          (let log_entry = ExecutionLog sid_stage sname now st
                             (case abilities of None \<Rightarrow> [] | Some xs \<Rightarrow> xs)
                             server dur err_msg out
           in case py_last hist of
                Inl err \<Rightarrow> (Inl err, sm)
              | Inr current_state \<Rightarrow>
                  (case state_item current_state ''execution_log'' of
                     Inl err \<Rightarrow> (Inl err, sm)
                   | Inr lg \<Rightarrow>
                       (case py_append lg (PLog log_entry) sm of
                          Inl err \<Rightarrow> (Inl err, sm)
                        | Inr sm1 \<Rightarrow>
                            (case err_msg of
                               None \<Rightarrow> (Inr (), sm1)
                             | Some m \<Rightarrow>
                                 (if m = [] then (Inr (), sm1)
                                  else
                                    (case state_item current_state ''errors'' of
                                       Inl err \<Rightarrow> (Inl err, sm1)
                                     | Inr errs \<Rightarrow>
                                         (case py_append errs (PStr (sname @ '': '' @ m)) sm1 of
                                            Inl err \<Rightarrow> (Inl err, sm1)
                                          | Inr sm2 \<Rightarrow> (Inr (), sm2)))))))))"

text \<open>What a state shows as its execution log and its errors: the lists behind the references.\<close>

definition deref :: "StateManager \<Rightarrow> pyval \<Rightarrow> pyval list" where
  "deref sm v = (case v of PRef a \<Rightarrow> store sm a | PList xs \<Rightarrow> xs | _ \<Rightarrow> [])"

definition log_of :: "StateManager \<Rightarrow> AgentState \<Rightarrow> pyval list" where
  "log_of sm st = deref sm (state_get st ''execution_log'' PNone)"

definition errors_of :: "StateManager \<Rightarrow> AgentState \<Rightarrow> pyval list" where
  "errors_of sm st = deref sm (state_get st ''errors'' PNone)"

text \<open>
  A caller's sequence of \<open>update_state\<close> calls on one session, each with its updates, its
  stage name and its clock reading; an exception ends the sequence.
\<close>

fun update_calls ::
  "StateManager \<Rightarrow> string \<Rightarrow> ((string \<times> pyval) list \<times> string \<times> datetime) list
     \<Rightarrow> error + StateManager" where
  "update_calls sm sid [] = Inr sm"
| "update_calls sm sid ((updates, stage, now) # calls) =
     (case update_state sm now sid updates stage of
        (Inl err, sm') \<Rightarrow> Inl err
      | (Inr st, sm') \<Rightarrow> update_calls sm' sid calls)"

section \<open>Python operations the stages use\<close>

text \<open>
  \<open>str(v)\<close> as an f-string takes it. Strings, integers, \<open>None\<close> and booleans are
  written out; for any other value the text is what the built-in \<open>str\<close> gives, which
  the model takes as the parameter \<open>other\<close>.
\<close>

function show_nat :: "nat \<Rightarrow> string" where
  "show_nat n =
     (if n < 10 then [char_of (48 + n)]
      else show_nat (n div 10) @ [char_of (48 + n mod 10)])"
  by pat_completeness auto
termination
  by (relation "measure (\<lambda>n. n)") auto

declare show_nat.simps [simp del]

definition show_int :: "int \<Rightarrow> string" where
  "show_int i = (if i < 0 then CHR ''-'' # show_nat (nat (- i)) else show_nat (nat i))"

definition py_str :: "(pyval \<Rightarrow> string) \<Rightarrow> pyval \<Rightarrow> string" where
  "py_str other v =
     (case v of
        PStr s \<Rightarrow> s
      | PInt i \<Rightarrow> show_int i
      | PNone \<Rightarrow> ''None''
      | PBool b \<Rightarrow> (if b then ''True'' else ''False'')
      | _ \<Rightarrow> other v)"

definition str_opt :: "string option \<Rightarrow> string" where
  "str_opt s = (case s of None \<Rightarrow> ''None'' | Some x \<Rightarrow> x)"

definition opt_dict :: "dict option \<Rightarrow> pyval" where
  "opt_dict d = (case d of None \<Rightarrow> PNone | Some x \<Rightarrow> PDict x)"

text \<open>Numbers: \<open>bool\<close> is a subclass of \<open>int\<close>, and integers and floats compare by value.\<close>

fun py_num :: "pyval \<Rightarrow> rat option" where
  "py_num (PInt i) = Some (of_int i)"
| "py_num (PFloat q) = Some q"
| "py_num (PBool b) = Some (if b then 1 else 0)"
| "py_num v = None"

definition not_supported :: "string \<Rightarrow> pyval \<Rightarrow> pyval \<Rightarrow> error" where
  "not_supported opr a b =
     TypeError ([CHR 39] @ opr @ [CHR 39] @ '' not supported between instances of ''
                @ [CHR 39] @ type_name a @ [CHR 39] @ '' and '' @ [CHR 39] @ type_name b @ [CHR 39])"

text \<open>\<open>a < b\<close>, \<open>a > b\<close> and \<open>a >= b\<close> where \<open>b\<close> is a number, as in every use below.\<close>

definition py_lt :: "pyval \<Rightarrow> pyval \<Rightarrow> error + bool" where
  "py_lt a b =
     (case (py_num a, py_num b) of
        (Some x, Some y) \<Rightarrow> Inr (x < y)
      | _ \<Rightarrow> Inl (not_supported ''<'' a b))"

definition py_gt :: "pyval \<Rightarrow> pyval \<Rightarrow> error + bool" where
  "py_gt a b =
     (case (py_num a, py_num b) of
        (Some x, Some y) \<Rightarrow> Inr (x > y)
      | _ \<Rightarrow> Inl (not_supported ''>'' a b))"

definition py_ge :: "pyval \<Rightarrow> pyval \<Rightarrow> error + bool" where
  "py_ge a b =
     (case (py_num a, py_num b) of
        (Some x, Some y) \<Rightarrow> Inr (x \<ge> y)
      | _ \<Rightarrow> Inl (not_supported ''>='' a b))"

text \<open>A dictionary key must be hashable; the dictionaries here have string keys only.\<close>

fun hashable :: "pyval \<Rightarrow> bool" where
  "hashable (PList xs) = False"
| "hashable (PDict d) = False"
| "hashable (PRef a) = False"
| "hashable (PLog l) = False"
| "hashable v = True"

definition dict_find :: "dict \<Rightarrow> pyval \<Rightarrow> error + pyval option" where
  "dict_find d k =
     (case k of
        PStr s \<Rightarrow> Inr (map_of d s)
      | _ \<Rightarrow> if hashable k then Inr None
             else Inl (TypeError (''unhashable type: '' @ [CHR 39] @ type_name k @ [CHR 39])))"

text \<open>\<open>obj.get(k, default)\<close> with a computed key.\<close>

definition py_get_dyn :: "pyval \<Rightarrow> pyval \<Rightarrow> pyval \<Rightarrow> error + pyval" where
  "py_get_dyn obj k dflt =
     (case obj of
        PDict d \<Rightarrow> bindE (dict_find d k) (\<lambda>r. Inr (case r of None \<Rightarrow> dflt | Some v \<Rightarrow> v))
      | _ \<Rightarrow> Inl (no_attribute obj ''get''))"

text \<open>\<open>sub in s\<close> on strings, and \<open>key in obj\<close> for a string \<open>key\<close> and any object.\<close>

fun contains :: "string \<Rightarrow> string \<Rightarrow> bool" where
  "contains sub [] = (sub = [])"
| "contains sub (c # cs) = (take (length sub) (c # cs) = sub \<or> contains sub cs)"

definition py_in :: "(nat \<Rightarrow> pyval list) \<Rightarrow> string \<Rightarrow> pyval \<Rightarrow> error + bool" where
  "py_in h key obj =
     (case obj of
        PStr s \<Rightarrow> Inr (contains key s)
      | PList xs \<Rightarrow> Inr (List.member xs (PStr key))
      | PRef a \<Rightarrow> Inr (List.member (h a) (PStr key))
      | PDict d \<Rightarrow> Inr (map_of d key \<noteq> None)
      | _ \<Rightarrow> Inl (TypeError (''argument of type '' @ [CHR 39] @ type_name obj @ [CHR 39]
                              @ '' is not iterable'')))"

definition py_len :: "(nat \<Rightarrow> pyval list) \<Rightarrow> pyval \<Rightarrow> error + nat" where
  "py_len h obj =
     (case obj of
        PStr s \<Rightarrow> Inr (length s)
      | PList xs \<Rightarrow> Inr (length xs)
      | PRef a \<Rightarrow> Inr (length (h a))
      | PDict d \<Rightarrow> Inr (length d)
      | _ \<Rightarrow> Inl (TypeError (''object of type '' @ [CHR 39] @ type_name obj @ [CHR 39]
                              @ '' has no len()'')))"

text \<open>
  Floats. Python's floats are the binary64 numbers, and each operation gives the float
  nearest to its exact result, a tie going to the even mantissa. \<open>nearest_float x\<close> is
  that float for a rational \<open>x\<close>: 53 bits of mantissa, with an exponent that is not
  bounded (binary64 differs only beyond \<open>10^308\<close> and below \<open>10^-307\<close>).
  \<open>bit_length\<close> is \<open>int.bit_length()\<close> of a positive integer, \<open>two_to k\<close> is \<open>2^k\<close> for an integer \<open>k\<close>, and
  \<open>floor_log2 x\<close> is the \<open>k\<close> with \<open>2^k \<le> x < 2^(k+1)\<close>, for a positive \<open>x\<close>.
\<close>

function bit_length :: "int \<Rightarrow> int" where
  "bit_length n = (if n \<le> 0 then 0 else 1 + bit_length (n div 2))"
  by pat_completeness auto
termination
  by (relation "measure (\<lambda>n. nat n)") auto

declare bit_length.simps [simp del]

definition two_to :: "int \<Rightarrow> rat" where
  "two_to k = (if 0 \<le> k then 2 ^ nat k else 1 / 2 ^ nat (- k))"

definition floor_log2 :: "rat \<Rightarrow> int" where
  "floor_log2 x =
     (let (p, q) = quotient_of x;
          k = bit_length p - bit_length q
      in if two_to k \<le> x then k else k - 1)"

definition round_half_even :: "rat \<Rightarrow> int" where
  "round_half_even x =
     (let n = \<lfloor>x\<rfloor>;
          r = x - of_int n
      in if r < 1 / 2 then n
         else if 1 / 2 < r then n + 1
         else if even n then n else n + 1)"

definition nearest_float :: "rat \<Rightarrow> rat" where
  "nearest_float x =
     (if x = 0 then 0
      else
        (let a = \<bar>x\<bar>;
             e = floor_log2 a - 52
         in sgn x * of_int (round_half_even (a / two_to e)) * two_to e))"

text \<open>
  \<open>(done - start).total_seconds() * 1000\<close>: \<open>total_seconds()\<close> is the float nearest to
  the microseconds divided by \<open>10^6\<close>, and the product with 1000 is rounded again.
  \<open>elapsed_ms\<close> is \<open>int(...)\<close> of it, which truncates towards zero.
\<close>

definition elapsed :: "datetime \<Rightarrow> datetime \<Rightarrow> rat" where
  "elapsed start done =
     nearest_float (nearest_float (of_int (micros done - micros start) / 1000000) * 1000)"

definition elapsed_ms :: "datetime \<Rightarrow> datetime \<Rightarrow> int" where
  "elapsed_ms start done =
     (let ms = elapsed start done
      in if ms < 0 then - \<lfloor>- ms\<rfloor> else \<lfloor>ms\<rfloor>)"

section \<open>The capability client\<close>

datatype MCPServerType = ATLAS | COMMON

record MCPRequest =
  ability_name :: string
  parameters :: dict
  request_context :: dict
  session_id :: string
  request_timestamp :: datetime

record MCPResponse =
  success :: bool
  data :: "dict option"
  error :: "string option"
  execution_time_ms :: "int option"
  server_type :: MCPServerType

text \<open>
  \<open>MCPResponse\<close> is a pydantic model, and its field is declared
  \<open>server_type: MCPServerType\<close>: required, and not optional. Constructing the model
  validates the fields, so \<open>None\<close> for \<open>server_type\<close> raises pydantic's
  \<open>ValidationError\<close>.
\<close>

definition MCPResponse_new ::
  "bool \<Rightarrow> dict option \<Rightarrow> string option \<Rightarrow> int option \<Rightarrow> MCPServerType option
     \<Rightarrow> error + MCPResponse" where
  "MCPResponse_new ok d err ms st =
     (case st of
        None \<Rightarrow> Inl (ValidationError ''MCPResponse'' ''server_type'')
      | Some t \<Rightarrow> Inr \<lparr>success = ok, data = d, error = err, execution_time_ms = ms,
                       server_type = t\<rparr>)"

definition server_mapping :: "(string \<times> MCPServerType) list" where
  "server_mapping =
     [(''extract_entities'', ATLAS),
      (''enrich_records'', ATLAS),
      (''clarify_question'', ATLAS),
      (''extract_answer'', ATLAS),
      (''knowledge_base_search'', ATLAS),
      (''escalation_decision'', ATLAS),
      (''update_ticket'', ATLAS),
      (''close_ticket'', ATLAS),
      (''execute_api_calls'', ATLAS),
      (''trigger_notifications'', ATLAS),
      (''parse_request_text'', COMMON),
      (''normalize_fields'', COMMON),
      (''add_flags_calculations'', COMMON),
      (''solution_evaluation'', COMMON),
      (''response_generation'', COMMON)]"

text \<open>
  The source answers every request from two functions that stand in for the two
  servers (\<open>_simulate_atlas_response\<close>, \<open>_simulate_common_response\<close>). The client of
  the model holds them as fields, so that the stages can be studied against any
  answers of the servers; \<open>simulated_client\<close> below is the pair the source has.
\<close>

record MCPClient =
  simulate_atlas_response :: "MCPRequest \<Rightarrow> error + dict"
  simulate_common_response :: "MCPRequest \<Rightarrow> error + dict"

definition call_atlas_server ::
  "MCPClient \<Rightarrow> datetime \<Rightarrow> datetime \<Rightarrow> MCPRequest \<Rightarrow> error + MCPResponse" where
  "call_atlas_server client start_time done request =
     (case simulate_atlas_response client request of
        Inr response_data \<Rightarrow>
          MCPResponse_new True (Some response_data) None (Some (elapsed_ms start_time done))
            (Some ATLAS)
      | Inl e \<Rightarrow>
          MCPResponse_new False None (Some (str_of_error e)) (Some (elapsed_ms start_time done))
            (Some ATLAS))"

definition call_common_server ::
  "MCPClient \<Rightarrow> datetime \<Rightarrow> datetime \<Rightarrow> MCPRequest \<Rightarrow> error + MCPResponse" where
  "call_common_server client start_time done request =
     (case simulate_common_response client request of
        Inr response_data \<Rightarrow>
          MCPResponse_new True (Some response_data) None (Some (elapsed_ms start_time done))
            (Some COMMON)
      | Inl e \<Rightarrow>
          MCPResponse_new False None (Some (str_of_error e)) (Some (elapsed_ms start_time done))
            (Some COMMON))"

text \<open>
  \<open>execute_ability\<close>. \<open>now\<close> is the clock reading when the request is made and \<open>done\<close>
  the one when the server has answered. \<open>MCPRequest\<close> is a pydantic model with
  \<open>session_id: str\<close>, so a session id that is true and not a string is refused (as
  pydantic 2 does; the sessions that the state manager makes have string ids).
\<close>

definition execute_ability ::
  "MCPClient \<Rightarrow> (nat \<Rightarrow> pyval list) \<Rightarrow> datetime \<Rightarrow> datetime \<Rightarrow> string \<Rightarrow> dict option
     \<Rightarrow> dict option \<Rightarrow> pyval \<Rightarrow> error + MCPResponse" where
  "execute_ability client h now done name params ctx sid =
     (case map_of server_mapping name of
        None \<Rightarrow> MCPResponse_new False None (Some (''Unknown ability: '' @ name)) None None
      | Some server \<Rightarrow>
          (case (if truthy h sid then sid else PStr ''UnknownSession'') of
             PStr s \<Rightarrow>
               (let request = \<lparr>ability_name = name,
                               parameters = (case params of None \<Rightarrow> [] | Some p \<Rightarrow> p),
                               request_context = (case ctx of None \<Rightarrow> [] | Some c \<Rightarrow> c),
                               session_id = s,
                               request_timestamp = now\<rparr>
                in if server = ATLAS then call_atlas_server client now done request
                   else call_common_server client now done request)
           | _ \<Rightarrow> Inl (ValidationError ''MCPRequest'' ''session_id'')))"

text \<open>\<open>obj[key]\<close> with a literal string key.\<close>

definition py_item :: "pyval \<Rightarrow> string \<Rightarrow> error + pyval" where
  "py_item obj key =
     (case obj of
        PDict d \<Rightarrow>
          (case map_of d key of
             None \<Rightarrow> Inl (KeyError ([CHR 39] @ key @ [CHR 39]))
           | Some v \<Rightarrow> Inr v)
      | PStr s \<Rightarrow> Inl (TypeError (''string indices must be integers, not '' @ [CHR 39] @ ''str'' @ [CHR 39]))
      | PList xs \<Rightarrow> Inl (TypeError ''list indices must be integers or slices, not str'')
      | PRef a \<Rightarrow> Inl (TypeError ''list indices must be integers or slices, not str'')
      | _ \<Rightarrow> Inl (TypeError ([CHR 39] @ type_name obj @ [CHR 39] @ '' object is not subscriptable'')))"

section \<open>Stage 7: DECIDE\<close>

definition escalation_threshold :: int where
  "escalation_threshold = 90"

text \<open>
  The handler of \<open>DecideStage.execute\<close>: the failure is logged with the abilities run so
  far (the empty list when the variable is not bound yet) and raised again. An
  exception of the logging itself takes its place.
\<close>

definition DecideStage_failed ::
  "StateManager \<Rightarrow> datetime \<Rightarrow> datetime \<Rightarrow> string \<Rightarrow> error \<Rightarrow> string list
     \<Rightarrow> (error + AgentState) \<times> StateManager" where
  "DecideStage_failed sm start_time now sid e abilities =
     (case log_stage_execution sm now sid 7 ''DECIDE'' FAILED (Some abilities) None
             (Some (elapsed_ms start_time now)) (Some (str_of_error e)) None of
        (Inl e2, sm') \<Rightarrow> (Inl e2, sm')
      | (Inr u, sm') \<Rightarrow> (Inl e, sm'))"

definition evaluate_solutions ::
  "MCPClient \<Rightarrow> (nat \<Rightarrow> pyval list) \<Rightarrow> datetime \<Rightarrow> AgentState \<Rightarrow> error + pyval" where
  "evaluate_solutions client h now state =
     bindE (py_get (state_get state ''enriched_records'' (PDict [])) ''customer_tier''
              (PStr ''standard'')) (\<lambda>customer_tier.
     bindE (state_item state ''priority'') (\<lambda>priority.
       (let context =
              [(''retrieved_solutions'', state_get state ''retrieved_solutions'' (PList [])),
               (''customer_tier'', customer_tier),
               (''priority'', priority),
               (''extracted_entities'', state_get state ''extracted_entities'' (PDict [])),
               (''customer_history'', state_get state ''enriched_records'' (PDict []))];
            parameters =
              [(''scoring_method'', PStr ''weighted_average''),
               (''criteria'', PList [PStr ''relevance'', PStr ''complexity'',
                                     PStr ''success_rate'', PStr ''customer_satisfaction''])]
        in bindE (state_item state ''session_id'') (\<lambda>session.
           bindE (execute_ability client h now now ''solution_evaluation'' (Some parameters)
                    (Some context) session) (\<lambda>response.
             if \<not> success response
             then Inl (Exception (''Failed to evaluate solutions: '' @ str_opt (error response)))
             else Inr (opt_dict (data response)))))))"

definition make_escalation_decision ::
  "MCPClient \<Rightarrow> (nat \<Rightarrow> pyval list) \<Rightarrow> datetime \<Rightarrow> AgentState \<Rightarrow> pyval \<Rightarrow> pyval
     \<Rightarrow> error + pyval" where
  "make_escalation_decision client h now state solution_evaluation best_score =
     bindE (py_get (state_get state ''enriched_records'' (PDict [])) ''customer_tier''
              (PStr ''standard'')) (\<lambda>customer_tier.
     bindE (state_item state ''priority'') (\<lambda>priority.
     bindE (py_get (state_get state ''calculated_flags'' (PDict [])) ''sla_risk_score''
              (PInt 50)) (\<lambda>sla_risk.
     bindE (py_get (state_get state ''calculated_flags'' (PDict [])) ''customer_satisfaction_risk''
              (PStr ''medium'')) (\<lambda>satisfaction_risk.
       (let context =
              [(''solution_scores'', solution_evaluation),
               (''best_score'', best_score),
               (''escalation_threshold'', PInt escalation_threshold),
               (''customer_tier'', customer_tier),
               (''priority'', priority),
               (''sla_risk'', sla_risk),
               (''customer_satisfaction_risk'', satisfaction_risk)];
            parameters =
              [(''solution_score'', best_score),
               (''threshold'', PInt escalation_threshold)]
        in bindE (state_item state ''session_id'') (\<lambda>session.
           bindE (execute_ability client h now now ''escalation_decision'' (Some parameters)
                    (Some context) session) (\<lambda>response.
             if \<not> success response
             then Inl (Exception (''Failed to make escalation decision: ''
                                   @ str_opt (error response)))
             else Inr (opt_dict (data response)))))))))"

text \<open>The loop of \<open>_find_best_solution\<close> over \<open>solution_scores.items()\<close>.\<close>

fun best_loop :: "dict \<Rightarrow> pyval \<Rightarrow> pyval \<Rightarrow> error + pyval \<times> pyval" where
  "best_loop [] best_solution_id best_score = Inr (best_solution_id, best_score)"
| "best_loop ((solution_id, scores) # rest) best_solution_id best_score =
     (case py_get scores ''overall_score'' (PInt 0) of
        Inl e \<Rightarrow> Inl e
      | Inr overall_score \<Rightarrow>
          (case py_gt overall_score best_score of
             Inl e \<Rightarrow> Inl e
           | Inr better \<Rightarrow>
               if better then best_loop rest (PStr solution_id) overall_score
               else best_loop rest best_solution_id best_score))"

definition find_best_solution ::
  "(nat \<Rightarrow> pyval list) \<Rightarrow> pyval \<Rightarrow> error + pyval \<times> pyval" where
  "find_best_solution h solution_evaluation =
     bindE (py_get solution_evaluation ''solution_scores'' (PDict [])) (\<lambda>solution_scores.
       if \<not> truthy h solution_scores then Inr (PDict [], PFloat 0)
       else
         (case solution_scores of
            PDict ss \<Rightarrow>
              bindE (best_loop ss PNone (PFloat 0)) (\<lambda>(highest_id, highest_score).
              bindE (py_get solution_evaluation ''recommended_solution'' PNone)
                (\<lambda>recommended_solution_id.
              bindE (if truthy h recommended_solution_id
                     then bindE (dict_find ss recommended_solution_id) (\<lambda>found.
                            case found of
                              None \<Rightarrow> Inr (highest_id, highest_score)
                            | Some entry \<Rightarrow>
                                bindE (py_item entry ''overall_score'') (\<lambda>score.
                                  Inr (recommended_solution_id, score)))
                     else Inr (highest_id, highest_score))
                (\<lambda>(best_solution_id, best_score).
              bindE (py_get_dyn solution_scores best_solution_id (PDict [])) (\<lambda>details.
                Inr (PDict [(''solution_id'', best_solution_id),
                            (''score'', best_score),
                            (''details'', details)],
                     best_score)))))
          | _ \<Rightarrow> Inl (no_attribute solution_scores ''items'')))"

text \<open>
  Steps 1 to 4 of \<open>DecideStage.execute\<close>: they compute \<open>results\<close> and
  \<open>abilities_executed\<close>, or fail with the abilities run so far.
\<close>

definition DecideStage_steps ::
  "(pyval \<Rightarrow> string) \<Rightarrow> MCPClient \<Rightarrow> (nat \<Rightarrow> pyval list) \<Rightarrow> datetime \<Rightarrow> AgentState
     \<Rightarrow> (error \<times> string list) + (dict \<times> string list)" where
  "DecideStage_steps other client h now current_state =
     (case evaluate_solutions client h now current_state of
        Inl e \<Rightarrow> Inl (e, [])
      | Inr solution_evaluation \<Rightarrow>
          (case find_best_solution h solution_evaluation of
             Inl e \<Rightarrow> Inl (e, [''solution_evaluation''])
           | Inr (best_solution, best_score) \<Rightarrow>
               (case py_lt best_score (PInt escalation_threshold) of
                  Inl e \<Rightarrow> Inl (e, [''solution_evaluation''])
                | Inr low \<Rightarrow>
                    (case (if low then
                             (case make_escalation_decision client h now current_state
                                     solution_evaluation best_score of
                                Inl e \<Rightarrow> Inl (e, [''solution_evaluation''])
                              | Inr escalation_result \<Rightarrow>
                                  Inr ([(''solution_scores'', solution_evaluation),
                                        (''escalation_decision'', PBool True),
                                        (''escalation_details'', escalation_result),
                                        (''selected_solution'', PNone),
                                        (''decision_reasoning'',
                                           PStr (''Escalated due to low solution score (''
                                                 @ py_str other best_score @ '')''))],
                                       [''solution_evaluation'', ''escalation_decision'']))
                           else
                             Inr ([(''solution_scores'', solution_evaluation),
                                   (''escalation_decision'', PBool False),
                                   (''selected_solution'', best_solution),
                                   (''decision_reasoning'',
                                      PStr (''Auto-resolved with solution score ''
                                            @ py_str other best_score))],
                                  [''solution_evaluation''])) of
                       Inl failure \<Rightarrow> Inl failure
                     | Inr (results, abilities) \<Rightarrow>
                         (case py_get solution_evaluation ''confidence'' (PFloat 0.5) of
                            Inl e \<Rightarrow> Inl (e, abilities)
                          | Inr confidence \<Rightarrow>
                              Inr (results @ [(''decision_timestamp'', PStr (isoformat now)),
                                              (''decision_confidence'', confidence)],
                                   abilities @ [''update_payload'']))))))"

text \<open>
  \<open>DecideStage.execute\<close>. \<open>start_time\<close> is the clock reading on entry, \<open>now\<close> the
  reading of the later calls, \<open>other\<close> the built-in \<open>str\<close> on values that are not
  written out by \<open>py_str\<close>.
\<close>

definition DecideStage_execute ::
  "(pyval \<Rightarrow> string) \<Rightarrow> MCPClient \<Rightarrow> StateManager \<Rightarrow> datetime \<Rightarrow> datetime \<Rightarrow> string
     \<Rightarrow> (error + AgentState) \<times> StateManager" where
  "DecideStage_execute other client sm start_time now sid =
     (case get_current_state sm sid of
        Inl e \<Rightarrow> DecideStage_failed sm start_time now sid e []
      | Inr current_state \<Rightarrow>
          if \<not> truthy (store sm) (state_get current_state ''retrieved_solutions'' PNone)
          then DecideStage_failed sm start_time now sid
                 (Exception ''No solutions found to evaluate'') []
          else
            (case DecideStage_steps other client (store sm) now current_state of
               Inl (e, abilities) \<Rightarrow> DecideStage_failed sm start_time now sid e abilities
             | Inr (results, abilities) \<Rightarrow>
                 (case update_state sm now sid results ''DECIDE'' of
                    (Inl e, sm1) \<Rightarrow> DecideStage_failed sm1 start_time now sid e abilities
                  | (Inr updated_state, sm1) \<Rightarrow>
                      (case log_stage_execution sm1 now sid 7 ''DECIDE'' COMPLETED
                              (Some abilities) (Some ''COMMON,ATLAS'')
                              (Some (elapsed_ms start_time now)) None (Some results) of
                         (Inl e, sm2) \<Rightarrow> DecideStage_failed sm2 start_time now sid e abilities
                       | (Inr u, sm2) \<Rightarrow> (Inr updated_state, sm2)))))"

section \<open>Stage 8: UPDATE\<close>

text \<open>
  The handler of \<open>UpdateStage.execute\<close> and of \<open>WaitStage.execute\<close> reads the local
  variable \<open>abilities_executed\<close>. When the failure came before its assignment
  (\<open>abilities = None\<close>), reading it raises \<open>UnboundLocalError\<close> and nothing is logged.
\<close>

definition stage_failed ::
  "int \<Rightarrow> string \<Rightarrow> StateManager \<Rightarrow> datetime \<Rightarrow> datetime \<Rightarrow> string \<Rightarrow> error
     \<Rightarrow> string list option \<Rightarrow> (error + AgentState) \<times> StateManager" where
  "stage_failed stage_no stage sm start_time now sid e abilities =
     (case abilities of
        None \<Rightarrow>
          (Inl (UnboundLocalError (''cannot access local variable '' @ [CHR 39]
                  @ ''abilities_executed'' @ [CHR 39]
                  @ '' where it is not associated with a value'')), sm)
      | Some done_so_far \<Rightarrow>
          (case log_stage_execution sm now sid stage_no stage FAILED (Some done_so_far) None
                  (Some (elapsed_ms start_time now)) (Some (str_of_error e)) None of
             (Inl e2, sm') \<Rightarrow> (Inl e2, sm')
           | (Inr u, sm') \<Rightarrow> (Inl e, sm')))"

definition should_close_ticket :: "(nat \<Rightarrow> pyval list) \<Rightarrow> AgentState \<Rightarrow> error + bool" where
  "should_close_ticket h state =
     (if truthy h (state_get state ''escalation_decision'' (PBool False)) then Inr False
      else
        (let selected_solution = state_get state ''selected_solution'' PNone
         in if truthy h selected_solution then
              (let solution_scores = state_get state ''solution_scores'' (PDict [])
               in bindE (py_get selected_solution ''id'' PNone) (\<lambda>solution_id.
                    if truthy h solution_id then
                      bindE (py_get_dyn solution_scores solution_id (PDict [])) (\<lambda>entry.
                      bindE (py_get entry ''overall_score'' (PInt 0)) (\<lambda>score.
                      py_ge score (PInt 85)))
                    else Inr False))
            else Inr False))"

definition prepare_update_parameters ::
  "(nat \<Rightarrow> pyval list) \<Rightarrow> AgentState \<Rightarrow> error + dict" where
  "prepare_update_parameters h state =
     (let escalated = truthy h (state_get state ''escalation_decision'' (PBool False));
          status_part =
            (if escalated
             then [(''new_status'', PStr ''escalated''),
                   (''assigned_agent'', PStr ''human_agent''),
                   (''priority'', PStr ''high'')]
             else [(''new_status'', PStr ''in_progress'')]);
          status_fields =
            (if escalated then [''new_status'', ''assigned_agent'', ''priority'']
             else [''new_status'']);
          selected_solution = state_get state ''selected_solution'' PNone
      in bindE (if truthy h selected_solution then
                  bindE (py_get selected_solution ''title'' PNone) (\<lambda>title.
                  bindE (py_get selected_solution ''estimated_resolution_time'' PNone) (\<lambda>eta.
                    Inr ([(''resolution_approach'', title), (''estimated_resolution_time'', eta)],
                         [''resolution_approach'', ''estimated_resolution_time''])))
                else Inr ([], [])) (\<lambda>(solution_part, solution_fields).
         (let calculated_flags = state_get state ''calculated_flags'' (PDict [])
          in bindE (py_in h ''sla_targets'' calculated_flags) (\<lambda>has_sla.
             bindE (if has_sla then
                      bindE (py_item calculated_flags ''sla_targets'') (\<lambda>targets.
                      bindE (py_item targets ''resolution'') (\<lambda>target.
                        Inr ([(''sla_target'', target)], [''sla_target''])))
                    else Inr ([], [])) (\<lambda>(sla_part, sla_fields).
               Inr ([(''fields_to_update'',
                       PList (map PStr (status_fields @ solution_fields @ sla_fields)))]
                    @ status_part @ solution_part @ sla_part))))))"

definition update_ticket ::
  "MCPClient \<Rightarrow> (nat \<Rightarrow> pyval list) \<Rightarrow> datetime \<Rightarrow> AgentState \<Rightarrow> error + pyval" where
  "update_ticket client h now state =
     bindE (state_item state ''ticket_id'') (\<lambda>ticket_id.
     bindE (state_item state ''customer_name'') (\<lambda>customer_name.
       (let context =
              [(''ticket_id'', ticket_id),
               (''customer_name'', customer_name),
               (''escalation_decision'', state_get state ''escalation_decision'' PNone),
               (''selected_solution'', state_get state ''selected_solution'' PNone),
               (''decision_reasoning'', state_get state ''decision_reasoning'' PNone),
               (''solution_scores'', state_get state ''solution_scores'' PNone),
               (''enriched_records'', state_get state ''enriched_records'' PNone),
               (''calculated_flags'', state_get state ''calculated_flags'' PNone)]
        in bindE (prepare_update_parameters h state) (\<lambda>parameters.
           bindE (state_item state ''session_id'') (\<lambda>session.
           bindE (execute_ability client h now now ''update_ticket'' (Some parameters)
                    (Some context) session) (\<lambda>response.
             if \<not> success response
             then Inl (Exception (''Failed to update ticket: '' @ str_opt (error response)))
             else Inr (opt_dict (data response))))))))"

text \<open>\<open>str.lower()\<close> on code points below 256.\<close>

definition lower_char :: "char \<Rightarrow> char" where
  "lower_char c =
     (let n = of_char c :: nat
      in if (65 \<le> n \<and> n \<le> 90) \<or> (192 \<le> n \<and> n \<le> 222 \<and> n \<noteq> 215)
         then char_of (n + 32) else c)"

definition py_lower :: "pyval \<Rightarrow> error + string" where
  "py_lower v = (case v of PStr s \<Rightarrow> Inr (map lower_char s) | _ \<Rightarrow> Inl (no_attribute v ''lower''))"

definition determine_resolution_code :: "AgentState \<Rightarrow> error + string" where
  "determine_resolution_code state =
     (let selected_solution = state_get state ''selected_solution'' (PDict [])
      in bindE (py_get selected_solution ''title'' (PStr [])) (\<lambda>title.
         bindE (py_lower title) (\<lambda>solution_title.
           if contains ''billing'' solution_title \<or> contains ''payment'' solution_title
           then Inr ''resolved_billing_issue''
           else if contains ''account'' solution_title \<or> contains ''login'' solution_title
           then Inr ''resolved_account_issue''
           else if contains ''technical'' solution_title \<or> contains ''bug'' solution_title
           then Inr ''resolved_technical_issue''
           else Inr ''resolved_general_inquiry'')))"

definition generate_resolution_summary ::
  "(pyval \<Rightarrow> string) \<Rightarrow> (nat \<Rightarrow> pyval list) \<Rightarrow> AgentState \<Rightarrow> error + string" where
  "generate_resolution_summary other h state =
     (let selected_solution = state_get state ''selected_solution'' (PDict []);
          customer_name = state_get state ''customer_name'' (PStr ''Customer'')
      in bindE (py_get selected_solution ''title'' (PStr ''Standard Resolution'')) (\<lambda>title.
         (let summary1 = ''Issue resolved for '' @ py_str other customer_name
                         @ '' using solution: '' @ py_str other title @ ''. ''
          in bindE (py_in h ''steps'' selected_solution) (\<lambda>has_steps.
             bindE (if has_steps then
                      bindE (py_item selected_solution ''steps'') (\<lambda>steps.
                      bindE (py_len h steps) (\<lambda>n.
                        Inr (summary1 @ ''Resolution involved '' @ show_nat n @ '' steps. '')))
                    else Inr summary1) (\<lambda>summary2.
               (let decision_reasoning = state_get state ''decision_reasoning'' PNone
                in if truthy h decision_reasoning
                   then Inr (summary2 @ ''Decision rationale: '' @ py_str other decision_reasoning)
                   else Inr summary2))))))"

definition close_ticket ::
  "(pyval \<Rightarrow> string) \<Rightarrow> MCPClient \<Rightarrow> (nat \<Rightarrow> pyval list) \<Rightarrow> datetime \<Rightarrow> AgentState
     \<Rightarrow> error + pyval" where
  "close_ticket other client h now state =
     bindE (state_item state ''ticket_id'') (\<lambda>ticket_id.
     bindE (state_item state ''customer_name'') (\<lambda>customer_name.
     bindE (generate_resolution_summary other h state) (\<lambda>summary.
       (let context =
              [(''ticket_id'', ticket_id),
               (''customer_name'', customer_name),
               (''selected_solution'', state_get state ''selected_solution'' PNone),
               (''resolution_summary'', PStr summary)]
        in bindE (determine_resolution_code state) (\<lambda>code.
           (let parameters =
                  [(''resolution_code'', PStr code),
                   (''customer_satisfaction_survey'', PBool True),
                   (''follow_up_required'', PBool False)]
            in bindE (state_item state ''session_id'') (\<lambda>session.
               bindE (execute_ability client h now now ''close_ticket'' (Some parameters)
                        (Some context) session) (\<lambda>response.
                 if \<not> success response
                 then Inl (Exception (''Failed to close ticket: '' @ str_opt (error response)))
                 else Inr (opt_dict (data response))))))))))"

text \<open>
  The two steps of \<open>UpdateStage.execute\<close>, after \<open>abilities_executed = []\<close>: they
  compute \<open>results\<close> and \<open>abilities_executed\<close>, or fail with the abilities run so far.
\<close>

definition UpdateStage_steps ::
  "(pyval \<Rightarrow> string) \<Rightarrow> MCPClient \<Rightarrow> (nat \<Rightarrow> pyval list) \<Rightarrow> datetime \<Rightarrow> AgentState
     \<Rightarrow> (error \<times> string list) + (dict \<times> string list)" where
  "UpdateStage_steps other client h now current_state =
     (case update_ticket client h now current_state of
        Inl e \<Rightarrow> Inl (e, [])
      | Inr update_result \<Rightarrow>
          (case should_close_ticket h current_state of
             Inl e \<Rightarrow> Inl (e, [''update_ticket''])
           | Inr True \<Rightarrow>
               (case close_ticket other client h now current_state of
                  Inl e \<Rightarrow> Inl (e, [''update_ticket''])
                | Inr close_result \<Rightarrow>
                    Inr ([(''ticket_updates'', update_result),
                          (''ticket_status'', PStr ''closed'')],
                         [''update_ticket'', ''close_ticket'']))
           | Inr False \<Rightarrow>
               (case py_get update_result ''new_status'' (PStr ''in_progress'') of
                  Inl e \<Rightarrow> Inl (e, [''update_ticket''])
                | Inr new_status \<Rightarrow>
                    Inr ([(''ticket_updates'', update_result),
                          (''ticket_status'', new_status)],
                         [''update_ticket'']))))"

definition UpdateStage_execute ::
  "(pyval \<Rightarrow> string) \<Rightarrow> MCPClient \<Rightarrow> StateManager \<Rightarrow> datetime \<Rightarrow> datetime \<Rightarrow> string
     \<Rightarrow> (error + AgentState) \<times> StateManager" where
  "UpdateStage_execute other client sm start_time now sid =
     (case get_current_state sm sid of
        Inl e \<Rightarrow> stage_failed 8 ''UPDATE'' sm start_time now sid e None
      | Inr current_state \<Rightarrow>
          if \<not> truthy (store sm) (state_get current_state ''escalation_decision'' PNone)
             \<and> \<not> truthy (store sm) (state_get current_state ''selected_solution'' PNone)
          then stage_failed 8 ''UPDATE'' sm start_time now sid
                 (Exception ''Missing decision information from DECIDE stage'') None
          else
            (case UpdateStage_steps other client (store sm) now current_state of
               Inl (e, abilities) \<Rightarrow>
                 stage_failed 8 ''UPDATE'' sm start_time now sid e (Some abilities)
             | Inr (results, abilities) \<Rightarrow>
                 (case update_state sm now sid results ''UPDATE'' of
                    (Inl e, sm1) \<Rightarrow>
                      stage_failed 8 ''UPDATE'' sm1 start_time now sid e (Some abilities)
                  | (Inr updated_state, sm1) \<Rightarrow>
                      (case log_stage_execution sm1 now sid 8 ''UPDATE'' COMPLETED
                              (Some abilities) (Some ''ATLAS'')
                              (Some (elapsed_ms start_time now)) None (Some results) of
                         (Inl e, sm2) \<Rightarrow>
                           stage_failed 8 ''UPDATE'' sm2 start_time now sid e (Some abilities)
                       | (Inr u, sm2) \<Rightarrow> (Inr updated_state, sm2)))))"

section \<open>Stage 5: WAIT\<close>

definition extract_answer ::
  "MCPClient \<Rightarrow> (nat \<Rightarrow> pyval list) \<Rightarrow> datetime \<Rightarrow> AgentState \<Rightarrow> dict
     \<Rightarrow> error + pyval" where
  "extract_answer client h now state customer_responses =
     bindE (state_item state ''query'') (\<lambda>query.
     bindE (state_item state ''customer_name'') (\<lambda>customer_name.
       (let context =
              [(''questions_asked'', state_get state ''questions_asked'' (PList [])),
               (''customer_responses'', PDict customer_responses),
               (''original_query'', query),
               (''customer_name'', customer_name)]
        in bindE (state_item state ''session_id'') (\<lambda>session.
           bindE (execute_ability client h now now ''extract_answer'' (Some [])
                    (Some context) session) (\<lambda>response.
             if \<not> success response
             then Inl (Exception (''Failed to extract customer answers: ''
                                   @ str_opt (error response)))
             else Inr (opt_dict (data response)))))))"

definition store_answer :: "datetime \<Rightarrow> pyval \<Rightarrow> error + dict" where
  "store_answer now extracted_data =
     bindE (py_get extracted_data ''completeness'' (PFloat 1.0)) (\<lambda>completeness.
       Inr [(''customer_responses'', extracted_data),
            (''waiting_for_response'', PBool False),
            (''responses_received_at'', PStr (isoformat now)),
            (''response_completeness'', completeness)])"

text \<open>
  The two closing \<open>logger.info\<close> lines of \<open>WaitStage.execute\<close> evaluate
  \<open>len(extract_result.get('extracted_info', {}))\<close> and format
  \<open>extract_result.get('completeness', 0)\<close> with \<open>.2%\<close>; both can raise.
\<close>

definition percent_format :: "pyval \<Rightarrow> error + unit" where
  "percent_format v =
     (case py_num v of
        Some q \<Rightarrow> Inr ()
      | None \<Rightarrow>
          (case v of
             PStr s \<Rightarrow> Inl (ValueError (''Unknown format code '' @ [CHR 39] @ ''%'' @ [CHR 39]
                                         @ '' for object of type '' @ [CHR 39] @ ''str''
                                         @ [CHR 39]))
           | _ \<Rightarrow> Inl (TypeError (''unsupported format string passed to '' @ type_name v
                                   @ ''.__format__''))))"

definition wait_closing_lines :: "(nat \<Rightarrow> pyval list) \<Rightarrow> pyval \<Rightarrow> error + unit" where
  "wait_closing_lines h extract_result =
     bindE (py_get extract_result ''extracted_info'' (PDict [])) (\<lambda>info.
     bindE (py_len h info) (\<lambda>n.
     bindE (py_get extract_result ''completeness'' (PInt 0)) (\<lambda>completeness.
       percent_format completeness)))"

text \<open>
  \<open>WaitStage.execute\<close>. \<open>customer_responses\<close> is the optional answer payload: \<open>None\<close>
  or a dictionary.
\<close>

definition WaitStage_execute ::
  "MCPClient \<Rightarrow> StateManager \<Rightarrow> datetime \<Rightarrow> datetime \<Rightarrow> string \<Rightarrow> dict option
     \<Rightarrow> (error + AgentState) \<times> StateManager" where
  "WaitStage_execute client sm start_time now sid customer_responses =
     (case get_current_state sm sid of
        Inl e \<Rightarrow> stage_failed 5 ''WAIT'' sm start_time now sid e None
      | Inr current_state \<Rightarrow>
          if \<not> truthy (store sm) (state_get current_state ''clarification_needed'' (PBool False))
          then
            (case log_stage_execution sm now sid 5 ''WAIT'' SKIPPED (Some []) None
                    (Some (elapsed_ms start_time now)) None
                    (Some [(''reason'', PStr ''No clarification needed'')]) of
               (Inl e, sm1) \<Rightarrow> stage_failed 5 ''WAIT'' sm1 start_time now sid e None
             | (Inr u, sm1) \<Rightarrow> (Inr current_state, sm1))
          else if (case customer_responses of None \<Rightarrow> True | Some r \<Rightarrow> r = [])
          then
            (let results = [(''customer_responses'', PNone),
                            (''waiting_for_response'', PBool True),
                            (''questions_sent_at'', PStr (isoformat now))]
             in case update_state sm now sid results ''WAIT'' of
                  (Inl e, sm1) \<Rightarrow> stage_failed 5 ''WAIT'' sm1 start_time now sid e None
                | (Inr updated_state, sm1) \<Rightarrow>
                    (case log_stage_execution sm1 now sid 5 ''WAIT'' IN_PROGRESS (Some []) None
                            (Some (elapsed_ms start_time now)) None
                            (Some [(''status'', PStr ''waiting_for_customer_response'')]) of
                       (Inl e, sm2) \<Rightarrow> stage_failed 5 ''WAIT'' sm2 start_time now sid e None
                     | (Inr u, sm2) \<Rightarrow> (Inr updated_state, sm2)))
          else
            (case extract_answer client (store sm) now current_state
                    (case customer_responses of None \<Rightarrow> [] | Some r \<Rightarrow> r) of
               Inl e \<Rightarrow> stage_failed 5 ''WAIT'' sm start_time now sid e (Some [])
             | Inr extract_result \<Rightarrow>
                 (case store_answer now extract_result of
                    Inl e \<Rightarrow>
                      stage_failed 5 ''WAIT'' sm start_time now sid e (Some [''extract_answer''])
                  | Inr results \<Rightarrow>
                      (let abilities = [''extract_answer'', ''store_answer'']
                       in case update_state sm now sid results ''WAIT'' of
                            (Inl e, sm1) \<Rightarrow>
                              stage_failed 5 ''WAIT'' sm1 start_time now sid e (Some abilities)
                          | (Inr updated_state, sm1) \<Rightarrow>
                              (case log_stage_execution sm1 now sid 5 ''WAIT'' COMPLETED
                                      (Some abilities) (Some ''ATLAS,STATE'')
                                      (Some (elapsed_ms start_time now)) None (Some results) of
                                 (Inl e, sm2) \<Rightarrow>
                                   stage_failed 5 ''WAIT'' sm2 start_time now sid e (Some abilities)
                               | (Inr u, sm2) \<Rightarrow>
                                   (case wait_closing_lines (store sm2) extract_result of
                                      Inl e \<Rightarrow>
                                        stage_failed 5 ''WAIT'' sm2 start_time now sid e
                                          (Some abilities)
                                    | Inr u' \<Rightarrow> (Inr updated_state, sm2)))))))"

text \<open>\<open>WaitStage.is_waiting_for_response\<close>\<close>

definition is_waiting_for_response :: "StateManager \<Rightarrow> string \<Rightarrow> bool" where
  "is_waiting_for_response sm sid =
     (case get_current_state sm sid of
        Inl e \<Rightarrow> False
      | Inr current_state \<Rightarrow>
          truthy (store sm) (state_get current_state ''waiting_for_response'' (PBool False)))"

section \<open>Stage 1: INTAKE\<close>

text \<open>\<open>str.strip()\<close> on code points below 256.\<close>

definition is_space :: "char \<Rightarrow> bool" where
  "is_space c =
     (let n = of_char c :: nat
      in (9 \<le> n \<and> n \<le> 13) \<or> (28 \<le> n \<and> n \<le> 32) \<or> n = 133 \<or> n = 160)"

definition strip :: "string \<Rightarrow> string" where
  "strip s = rev (dropWhile is_space (rev (dropWhile is_space s)))"

definition payload_get :: "dict \<Rightarrow> string \<Rightarrow> pyval \<Rightarrow> pyval" where
  "payload_get payload key dflt = (case map_of payload key of None \<Rightarrow> dflt | Some v \<Rightarrow> v)"

text \<open>The loop of \<open>_validate_payload\<close> over the required fields.\<close>

fun required_fields_check :: "(nat \<Rightarrow> pyval list) \<Rightarrow> dict \<Rightarrow> string list \<Rightarrow> string list" where
  "required_fields_check h payload [] = []"
| "required_fields_check h payload (field # rest) =
     (let v = payload_get payload field PNone
      in (if \<not> truthy h v then [''Missing required field: '' @ field]
          else if (case v of PStr s \<Rightarrow> strip s = [] | _ \<Rightarrow> True)
          then [''Field '' @ [CHR 39] @ field @ [CHR 39] @ '' must be a non-empty string'']
          else [])
         @ required_fields_check h payload rest)"

definition validate_payload ::
  "(pyval \<Rightarrow> string) \<Rightarrow> (nat \<Rightarrow> pyval list) \<Rightarrow> dict \<Rightarrow> error + string list" where
  "validate_payload other h payload =
     (let errors1 = required_fields_check h payload [''customer_name'', ''email'', ''query''];
          email = payload_get payload ''email'' (PStr [])
      in bindE (if truthy h email
                then bindE (py_in h ''@'' email) (\<lambda>has_at.
                       Inr (if \<not> has_at then [''Invalid email format''] else []))
                else Inr []) (\<lambda>errors2.
         (let priority = payload_get payload ''priority'' (PStr ''medium'');
              errors3 =
                (if truthy h priority
                    \<and> \<not> List.member [PStr ''low'', PStr ''medium'', PStr ''high'', PStr ''urgent'']
                          priority
                 then [''Invalid priority '' @ [CHR 39] @ py_str other priority @ [CHR 39]
                       @ ''. Must be: low, medium, high, or urgent'']
                 else []);
              query = payload_get payload ''query'' (PStr [])
          in bindE (py_len h query) (\<lambda>n.
               Inr (errors1 @ errors2 @ errors3
                    @ (if n > 5000 then [''Query too long (max 5000 characters)''] else []))))))"

text \<open>\<open>','.join(xs)\<close>\<close>

fun join_comma :: "string list \<Rightarrow> string" where
  "join_comma [] = []"
| "join_comma [x] = x"
| "join_comma (x # y # ys) = x @ '','' @ join_comma (y # ys)"

text \<open>
  The handler of \<open>IntakeStage.execute\<close>: it makes a state of its own for the failure,
  logs the failure there, swallows any exception of these two calls, and then falls
  off the end of the function, which returns \<open>None\<close>. \<open>uuid\<close> is the id drawn for the
  state it makes, which is that state's \<open>session_id\<close>.
\<close>

definition IntakeStage_failed ::
  "StateManager \<Rightarrow> string \<Rightarrow> datetime \<Rightarrow> datetime \<Rightarrow> dict \<Rightarrow> error
     \<Rightarrow> (error + AgentState option) \<times> StateManager" where
  "IntakeStage_failed sm uuid start_time now input_payload e =
     (let (session_state, sm1) =
            create_initial_state sm uuid now
              (payload_get input_payload ''customer_name'' (PStr ''Unknown''))
              (payload_get input_payload ''email'' (PStr ''unknown@example.com''))
              (payload_get input_payload ''query'' (PStr ''Failed to process''))
              (PStr ''high'') PNone
      in case log_stage_execution sm1 now uuid 1 ''INTAKE'' FAILED
                (Some [''accept_payload'']) None (Some (elapsed_ms start_time now))
                (Some (str_of_error e)) None of
           (r, sm2) \<Rightarrow> (Inr None, sm2))"

text \<open>
  \<open>IntakeStage.execute\<close>. \<open>uuid1\<close> and \<open>uuid2\<close> are the first and the second id that
  \<open>uuid.uuid4()\<close> gives during the call. On the successful path the duration is handed
  to \<open>log_stage_execution\<close> as a float (the source has no \<open>int(...)\<close> there), and the
  pydantic model \<open>ExecutionLog\<close> declares \<open>duration_ms: Optional[int]\<close>: what pydantic
  makes of the float (version 1 truncates it, version 2 refuses a fractional value)
  is the parameter \<open>int_field\<close>.
\<close>

definition IntakeStage_execute ::
  "(pyval \<Rightarrow> string) \<Rightarrow> (rat \<Rightarrow> int option) \<Rightarrow> StateManager \<Rightarrow> string \<Rightarrow> string
     \<Rightarrow> datetime \<Rightarrow> datetime \<Rightarrow> dict \<Rightarrow> (error + AgentState option) \<times> StateManager" where
  "IntakeStage_execute other int_field sm uuid1 uuid2 start_time now input_payload =
     (case validate_payload other (store sm) input_payload of
        Inl e \<Rightarrow> IntakeStage_failed sm uuid1 start_time now input_payload e
      | Inr validation_errors \<Rightarrow>
          if validation_errors \<noteq> []
          then IntakeStage_failed sm uuid1 start_time now input_payload
                 (ValueError (''Payload validation failed: '' @ join_comma validation_errors))
          else
            (case (py_item (PDict input_payload) ''customer_name'',
                   py_item (PDict input_payload) ''email'',
                   py_item (PDict input_payload) ''query'') of
               (Inr customer_name, Inr email, Inr query) \<Rightarrow>
                 (let priority = payload_get input_payload ''priority'' (PStr ''medium'');
                      ticket_id = payload_get input_payload ''ticket_id'' PNone;
                      (initial_state, sm1) =
                        create_initial_state sm uuid1 now customer_name email query priority
                          ticket_id;
                      execution_time = elapsed start_time now
                  in case int_field execution_time of
                       None \<Rightarrow>
                         IntakeStage_failed sm1 uuid2 start_time now input_payload
                           (ValidationError ''ExecutionLog'' ''duration_ms'')
                     | Some duration \<Rightarrow>
                         (case log_stage_execution sm1 now uuid1 1 ''INTAKE'' COMPLETED
                                 (Some [''accept_payload'']) None (Some duration) None
                                 (Some [(''ticket_id'', state_get initial_state ''ticket_id'' PNone),
                                        (''session_id'', state_get initial_state ''session_id'' PNone),
                                        (''validation_passed'', PBool True)]) of
                            (Inl e, sm2) \<Rightarrow>
                              IntakeStage_failed sm2 uuid2 start_time now input_payload e
                          | (Inr u, sm2) \<Rightarrow> (Inr (Some initial_state), sm2)))
             | (Inl e, _, _) \<Rightarrow> IntakeStage_failed sm uuid1 start_time now input_payload e
             | (_, Inl e, _) \<Rightarrow> IntakeStage_failed sm uuid1 start_time now input_payload e
             | (_, _, Inl e) \<Rightarrow> IntakeStage_failed sm uuid1 start_time now input_payload e))"

section \<open>The simulated servers of the source\<close>

text \<open>
  \<open>_simulate_atlas_response\<close> and \<open>_simulate_common_response\<close>, branch by branch.
  \<open>now\<close> is the clock reading of the \<open>datetime.now()\<close> calls in the answers. A
  comparison that raises is an exception of the simulation, which the caller turns
  into an unsuccessful response.
\<close>

definition simulate_atlas :: "datetime \<Rightarrow> MCPRequest \<Rightarrow> error + dict" where
  "simulate_atlas now request =
     (let ability = ability_name request;
          params = parameters request;
          ctx = request_context request
      in if ability = ''extract_entities'' then
           Inr [(''entities'',
                   PDict [(''product'', PStr ''Premium Subscription''),
                          (''account_id'', PStr ''ACC-12345''),
                          (''issue_type'', PStr ''Billing''),
                          (''dates_mentioned'', PList [PStr ''2024-01-15'']),
                          (''urgency_keywords'', PList [PStr ''urgent'', PStr ''immediately''])]),
                (''confidence_score'',
                   PDict [(''product'', PFloat (nearest_float 0.95)),
                          (''account_id'', PFloat (nearest_float 0.88)),
                          (''issue_type'', PFloat (nearest_float 0.92))])]
         else if ability = ''enrich_records'' then
           Inr [(''customer_tier'', PStr ''premium''),
                (''sla_response_time'', PStr ''4 hours''),
                (''previous_tickets'', PInt 3),
                (''satisfaction_score'', PFloat (nearest_float 4.2)),
                (''account_value'', PStr ''$2,400/year''),
                (''risk_flags'', PList [PStr ''high_value_customer''])]
         else if ability = ''clarify_question'' then
           Inr [(''questions needed'', PBool True),
                (''questions'',
                   PList [PStr ''Could you please provide your account ID?'',
                          PStr ''When did this billing issue first occur?'',
                          PStr ''What specific error message are you seeing?'']),
                (''priority'', PStr ''high'')]
         else if ability = ''extract_answer'' then
           Inr [(''extracted_info'',
                   PDict [(''account_id'', PStr ''ACC-12345''),
                          (''error_date'', PStr ''2024-01-15''),
                          (''error_message'', PStr ''Payment failed - card declined'')]),
                (''completeness'', PFloat (nearest_float 0.85))]
         else if ability = ''knowledge_base_search'' then
           Inr [(''solutions_found'',
                   PList [PDict [(''id'', PStr ''SOL-001''),
                                 (''title'', PStr ''Billing Payment Failure Resolution''),
                                 (''relevance_score'', PFloat (nearest_float 0.92)),
                                 (''steps'',
                                    PList [PStr ''Verify payment method is valid'',
                                           PStr ''Check account balance'',
                                           PStr ''Update billing information'',
                                           PStr ''Process manual payment if needed'']),
                                 (''estimated_resolution_time'', PStr ''15 minutes'')],
                          PDict [(''id'', PStr ''SOL-002''),
                                 (''title'', PStr ''Card Decline Troubleshooting''),
                                 (''relevance_score'', PFloat (nearest_float 0.87)),
                                 (''steps'',
                                    PList [PStr ''Contact bank to verify card status'',
                                           PStr ''Try alternative payment method'',
                                           PStr ''Update card information'']),
                                 (''estimated_resolution_time'', PStr ''10 minutes'')]]),
                (''total_results'', PInt 2)]
         else if ability = ''escalation_decision'' then
           (let solution_score = payload_get params ''solution_score'' (PInt 0)
            in bindE (py_lt solution_score (PInt 90)) (\<lambda>below_90.
               bindE (py_lt solution_score (PInt 70)) (\<lambda>below_70.
                 Inr [(''should_escalate'', PBool below_90),
                      (''escalation_reason'',
                         if below_90 then PStr ''Solution confidence below threshold'' else PNone),
                      (''assigned_agent'',
                         if below_90 then PStr ''senior_agent_001'' else PNone),
                      (''escalation_priority'',
                         if below_70 then PStr ''high'' else PStr ''medium'')])))
         else if ability = ''update_ticket'' then
           Inr [(''ticket_updated'', PBool True),
                (''new_status'', PStr ''In Progress''),
                (''fields_updated'',
                   PList [PStr ''status'', PStr ''priority'', PStr ''assigned_agent'',
                          PStr ''sla_target'']),
                (''timestamp'', PStr (isoformat now))]
         else if ability = ''close_ticket'' then
           Inr [(''ticket_closed'', PBool True),
                (''resolution_code'', PStr ''resolved_payment_issue''),
                (''customer_satisfaction_survey_sent'', PBool True),
                (''timestamp'', PStr (isoformat now))]
         else if ability = ''execute_api_calls'' then
           Inr [(''api_calls_executed'',
                   PList [PDict [(''system'', PStr ''billing_system''),
                                 (''action'', PStr ''update_payment_method''),
                                 (''success'', PBool True),
                                 (''response_code'', PInt 200)],
                          PDict [(''system'', PStr ''crm_system''),
                                 (''action'', PStr ''update_customer_record''),
                                 (''success'', PBool True),
                                 (''response_code'', PInt 200)]]),
                (''total_calls'', PInt 2),
                (''failures'', PInt 0)]
         else if ability = ''trigger_notifications'' then
           Inr [(''notifications_sent'',
                   PList [PDict [(''type'', PStr ''email''),
                                 (''recipient'',
                                    payload_get ctx ''email'' (PStr ''customer@example.com'')),
                                 (''subject'', PStr ''Your support ticket has been resolved''),
                                 (''sent'', PBool True),
                                 (''timestamp'', PStr (isoformat now))],
                          PDict [(''type'', PStr ''sms''),
                                 (''recipient'', PStr ''+1234567890''),
                                 (''message'',
                                    PStr ''Your billing issue has been resolved. Check your email for details.''),
                                 (''sent'', PBool True),
                                 (''timestamp'', PStr (isoformat now))]]),
                (''delivery_status'', PStr ''all_sent'')]
         else
           Inr [(''message'',
                   PStr (''Atlas ability '' @ [CHR 39] @ ability @ [CHR 39]
                         @ '' executed successfully''))])"

text \<open>
  The bullet of the generated letter is the code point U+2022, which is not among the
  256 characters of \<open>char\<close>. The character that stands for it is the parameter
  \<open>bullet\<close>, so that the letter has one character for each code point.
\<close>

definition response_letter :: "char \<Rightarrow> string \<Rightarrow> string \<Rightarrow> string" where
  "response_letter bullet customer_name ticket_id =
     ''Dear '' @ customer_name @ '','' @ [CHR 10, CHR 10]
     @ ''Thank you for contacting us regarding your billing issue. I'' @ [CHR 39]
     @ ''ve reviewed your account and identified the problem with your recent payment.''
     @ [CHR 10, CHR 10]
     @ ''Here'' @ [CHR 39] @ ''s what I'' @ [CHR 39] @ ''ve found and resolved:'' @ [CHR 10]
     @ [bullet] @ '' Your payment method was declined due to insufficient funds'' @ [CHR 10]
     @ [bullet] @ '' I'' @ [CHR 39]
     @ ''ve updated your billing information and processed the payment manually'' @ [CHR 10]
     @ [bullet] @ '' Your account is now current and services are fully restored''
     @ [CHR 10, CHR 10]
     @ ''To prevent this in the future, I recommend:'' @ [CHR 10]
     @ [bullet] @ '' Setting up automatic payment notifications'' @ [CHR 10]
     @ [bullet] @ '' Adding a backup payment method to your account'' @ [CHR 10, CHR 10]
     @ ''Your ticket has been resolved. If you have any other questions, please don''
     @ [CHR 39] @ ''t hesitate to reach out.'' @ [CHR 10, CHR 10]
     @ ''Best regards,'' @ [CHR 10]
     @ ''Customer Support Team'' @ [CHR 10]
     @ ''Ticket ID: '' @ ticket_id"

definition simulate_common ::
  "(pyval \<Rightarrow> string) \<Rightarrow> char \<Rightarrow> MCPRequest \<Rightarrow> error + dict" where
  "simulate_common other bullet request =
     (let ability = ability_name request;
          params = parameters request;
          ctx = request_context request
      in if ability = ''parse_request_text'' then
           Inr [(''structured_request'',
                   PDict [(''category'', PStr ''Billing''),
                          (''sub_category'', PStr ''Payment Issue''),
                          (''urgency'', PStr ''High''),
                          (''customer_sentiment'', PStr ''Frustrated''),
                          (''key_phrases'',
                             PList [PStr ''payment failed'', PStr ''card declined'',
                                    PStr ''need help'']),
                          (''intent'', PStr ''resolve_billing_issue'')]),
                (''parsing_confidence'', PFloat (nearest_float 0.91))]
         else if ability = ''normalize_fields'' then
           Inr [(''normalized_data'',
                   PDict [(''customer_name'', PStr ''Brijesh Kapadiya''),
                          (''email'', PStr ''brijesh.kapadiya@example.com''),
                          (''phone'', PStr ''+91 1234567890''),
                          (''priority'', PStr ''HIGH''),
                          (''created_date'', PStr ''2024-01-15T10:30:00Z''),
                          (''ticket_id'', PStr ''TKT-20240115-12345678'')]),
                (''normalization_rules_applied'',
                   PList [PStr ''name_proper_case'', PStr ''email_lowercase'',
                          PStr ''phone_international_format'', PStr ''priority_uppercase'',
                          PStr ''date_iso_format''])]
         else if ability = ''add_flags_calculations'' then
           Inr [(''calculated_flags'',
                   PDict [(''sla_risk_score'', PInt 75),
                          (''customer_value_tier'', PStr ''premium''),
                          (''escalation_probability'', PFloat 0.25),
                          (''resolution_complexity'', PStr ''medium''),
                          (''customer_satisfaction_risk'', PStr ''low'')]),
                (''priority_adjustments'',
                   PDict [(''original_priority'', PStr ''medium''),
                          (''adjusted_priority'', PStr ''high''),
                          (''adjustment_reason'', PStr ''premium_customer + sla_risk'')]),
                (''sla_targets'',
                   PDict [(''first_response'', PStr ''4 hours''),
                          (''resolution'', PStr ''24 hours''),
                          (''time_remaining'', PStr ''3.5 hours'')])]
         else if ability = ''solution_evaluation'' then
           Inr [(''solution_scores'',
                   PDict [(''SOL-001'',
                             PDict [(''overall_score'', PInt 92),
                                    (''relevance'', PInt 95),
                                    (''complexity'', PInt 20),
                                    (''success_rate'', PInt 88),
                                    (''customer_satisfaction_predicted'', PFloat (nearest_float 4.2))]),
                          (''SOL-002'',
                             PDict [(''overall_score'', PInt 78),
                                    (''relevance'', PInt 85),
                                    (''complexity'', PInt 40),
                                    (''success_rate'', PInt 72),
                                    (''customer_satisfaction_predicted'', PFloat (nearest_float 3.8))])]),
                (''recommended_solution'', PStr ''SOL-001''),
                (''confidence'', PFloat (nearest_float 0.92)),
                (''evaluation_criteria'',
                   PList [PStr ''relevance_to_issue'', PStr ''historical_success_rate'',
                          PStr ''implementation_complexity'',
                          PStr ''customer_satisfaction_impact''])]
         else if ability = ''response_generation'' then
           (let customer_name = payload_get ctx ''customer_name'' (PStr ''Valued Customer'')
            in Inr [(''generated_response'',
                       PStr (response_letter bullet (py_str other customer_name)
                               (py_str other (payload_get ctx ''ticket_id'' (PStr ''N/A''))))),
                    (''response_metadata'',
                       PDict [(''tone'', PStr ''professional_friendly''),
                              (''length'', PStr ''medium''),
                              (''personalization_score'', PFloat (nearest_float 0.85)),
                              (''clarity_score'', PFloat (nearest_float 0.92)),
                              (''completeness_score'', PFloat (nearest_float 0.88))])])
         else
           Inr [(''message'',
                   PStr (''Common ability '' @ [CHR 39] @ ability @ [CHR 39]
                         @ '' executed successfully''))])"

definition simulated_client :: "(pyval \<Rightarrow> string) \<Rightarrow> datetime \<Rightarrow> char \<Rightarrow> MCPClient" where
  "simulated_client other now bullet =
     \<lparr>simulate_atlas_response = simulate_atlas now,
      simulate_common_response = simulate_common other bullet\<rparr>"

section \<open>Reading a session\<close>

text \<open>The notes that \<open>update_state\<close> appends to \<open>errors\<close> for the keys of \<open>us\<close> that the state does not have.\<close>

definition unknown_notes :: "string \<Rightarrow> AgentState \<Rightarrow> (string \<times> pyval) list \<Rightarrow> pyval list" where
  "unknown_notes stage st us =
     map (\<lambda>k. PStr (''Unknown state key: '' @ k @ '' from stage '' @ stage))
       (filter (\<lambda>k. map_of st k = None) (map fst us))"

text \<open>What \<open>update_state\<close> leaves under a key: nothing where the state has no such key, else the last value that \<open>us\<close> assigns to it, else the old value.\<close>

definition updated_value :: "AgentState \<Rightarrow> (string \<times> pyval) list \<Rightarrow> string \<Rightarrow> pyval option" where
  "updated_value st us k =
     (case map_of st k of
        None \<Rightarrow> None
      | Some v0 \<Rightarrow> (case map_of (rev us) k of None \<Rightarrow> Some v0 | Some v \<Rightarrow> Some v))"

text \<open>\<open>st\<close> is the latest version of the session.\<close>

definition session_latest :: "StateManager \<Rightarrow> string \<Rightarrow> AgentState \<Rightarrow> bool" where
  "session_latest sm sid st =
     (case state_history sm sid of None \<Rightarrow> False | Some hist \<Rightarrow> hist \<noteq> [] \<and> last hist = st)"

text \<open>The state holds two different list objects under \<open>execution_log\<close> and \<open>errors\<close>, as every state that \<open>create_initial_state\<close> makes does.\<close>

definition list_slots :: "AgentState \<Rightarrow> nat \<Rightarrow> nat \<Rightarrow> bool" where
  "list_slots st l e =
     (map_of st ''execution_log'' = Some (PRef l) \<and> map_of st ''errors'' = Some (PRef e) \<and> l \<noteq> e)"

text \<open>The state has all the keys of the list.\<close>

definition known_keys :: "AgentState \<Rightarrow> string list \<Rightarrow> bool" where
  "known_keys st ks = list_all (\<lambda>k. map_of st k \<noteq> None) ks"

text \<open>The log entry that a value of the execution log is.\<close>

fun as_log :: "pyval \<Rightarrow> ExecutionLog option" where
  "as_log (PLog entry) = Some entry"
| "as_log v = None"

text \<open>An entry of \<open>solution_scores\<close> is a dictionary whose \<open>overall_score\<close>, when it has one, is a number.\<close>

definition scored :: "pyval \<Rightarrow> bool" where
  "scored v =
     (case v of
        PDict entry \<Rightarrow>
          (case map_of entry ''overall_score'' of None \<Rightarrow> True | Some x \<Rightarrow> py_num x \<noteq> None)
      | _ \<Rightarrow> False)"

text \<open>None of the calls assigns the key \<open>execution_log\<close> or \<open>errors\<close>.\<close>

definition no_list_keys :: "((string \<times> pyval) list \<times> string \<times> datetime) list \<Rightarrow> bool" where
  "no_list_keys calls =
     list_all (\<lambda>c. map_of (fst c) ''execution_log'' = None \<and> map_of (fst c) ''errors'' = None)
       calls"

text \<open>The fields that WAIT hands to \<open>update_state\<close> while it waits, and those it hands over when the answer has come.\<close>

definition wait_marker :: "datetime \<Rightarrow> (string \<times> pyval) list" where
  "wait_marker now =
     [(''customer_responses'', PNone),
      (''waiting_for_response'', PBool True),
      (''questions_sent_at'', PStr (isoformat now))]"

definition stored_answer :: "datetime \<Rightarrow> dict \<Rightarrow> (string \<times> pyval) list" where
  "stored_answer now a =
     [(''customer_responses'', PDict a),
      (''waiting_for_response'', PBool False),
      (''responses_received_at'', PStr (isoformat now)),
      (''response_completeness'', payload_get a ''completeness'' (PFloat 1.0))]"

section \<open>An example session\<close>

text \<open>
  The concrete inputs of the examples: two clock readings; a session made from a valid
  payload and brought by one update to the point where the stages before DECIDE have
  written their fields (\<open>demo_state0\<close> and \<open>demo_state\<close> are its two versions, written
  out); a client whose internal-processing server answers every request with a given
  dictionary, its external-systems server being the simulated one; answers of the
  \<open>solution_evaluation\<close> ability; an invalid payload; an answer payload for WAIT.
\<close>

definition demo_t0 :: datetime where
  "demo_t0 = Datetime 0 ''20240115'' ''2024-01-15T10:30:00''"

definition demo_t1 :: datetime where
  "demo_t1 = Datetime 2500 ''20240115'' ''2024-01-15T10:30:00.002500''"

definition demo_created :: "AgentState \<times> StateManager" where
  "demo_created =
     create_initial_state StateManager_init ''s1'' demo_t0
       (PStr ''Jane Doe'') (PStr ''jane@x.com'') (PStr ''payment failed'') (PStr ''high'') PNone"

definition demo_fields :: "(string \<times> pyval) list" where
  "demo_fields =
     [(''enriched_records'', PDict [(''customer_tier'', PStr ''premium'')]),
      (''calculated_flags'', PDict [(''sla_risk_score'', PInt 75)]),
      (''clarification_needed'', PBool True),
      (''retrieved_solutions'',
         PList [PDict [(''id'', PStr ''SOL-001''),
                       (''title'', PStr ''Billing Payment Failure Resolution'')]])]"

definition demo_ready :: "(error + AgentState) \<times> StateManager" where
  "demo_ready = update_state (snd demo_created) demo_t0 ''s1'' demo_fields ''RETRIEVE''"

definition demo_client :: "dict \<Rightarrow> MCPClient" where
  "demo_client answer =
     \<lparr>simulate_atlas_response = simulate_atlas demo_t1,
      simulate_common_response = (\<lambda>request. Inr answer)\<rparr>"

definition demo_state0 :: AgentState where
  "demo_state0 =
     [(''customer_name'', PStr ''Jane Doe''),
      (''email'', PStr ''jane@x.com''),
      (''query'', PStr ''payment failed''),
      (''priority'', PStr ''high''),
      (''ticket_id'', PStr ''TKT-20240115-s1''),
      (''parsed_request'', PNone),
      (''extracted_entities'', PNone),
      (''normalized_fields'', PNone),
      (''enriched_records'', PNone),
      (''calculated_flags'', PNone),
      (''clarification_needed'', PNone),
      (''questions_asked'', PNone),
      (''customer_responses'', PNone),
      (''knowledge_base_results'', PNone),
      (''retrieved_solutions'', PNone),
      (''solution_scores'', PNone),
      (''escalation_decision'', PNone),
      (''selected_solution'', PNone),
      (''decision_reasoning'', PNone),
      (''ticket_updates'', PNone),
      (''ticket_status'', PStr ''open''),
      (''generated_response'', PNone),
      (''api_calls_executed'', PNone),
      (''notifications_sent'', PNone),
      (''final_payload'', PNone),
      (''session_id'', PStr ''s1''),
      (''current_stage'', PStr ''INTAKE''),
      (''execution_log'', PRef 0),
      (''created_at'', PTime demo_t0),
      (''updated_at'', PTime demo_t0),
      (''errors'', PRef 1)]"

definition demo_state :: AgentState where
  "demo_state =
     [(''customer_name'', PStr ''Jane Doe''),
      (''email'', PStr ''jane@x.com''),
      (''query'', PStr ''payment failed''),
      (''priority'', PStr ''high''),
      (''ticket_id'', PStr ''TKT-20240115-s1''),
      (''parsed_request'', PNone),
      (''extracted_entities'', PNone),
      (''normalized_fields'', PNone),
      (''enriched_records'', PDict [(''customer_tier'', PStr ''premium'')]),
      (''calculated_flags'', PDict [(''sla_risk_score'', PInt 75)]),
      (''clarification_needed'', PBool True),
      (''questions_asked'', PNone),
      (''customer_responses'', PNone),
      (''knowledge_base_results'', PNone),
      (''retrieved_solutions'',
         PList [PDict [(''id'', PStr ''SOL-001''),
                       (''title'', PStr ''Billing Payment Failure Resolution'')]]),
      (''solution_scores'', PNone),
      (''escalation_decision'', PNone),
      (''selected_solution'', PNone),
      (''decision_reasoning'', PNone),
      (''ticket_updates'', PNone),
      (''ticket_status'', PStr ''open''),
      (''generated_response'', PNone),
      (''api_calls_executed'', PNone),
      (''notifications_sent'', PNone),
      (''final_payload'', PNone),
      (''session_id'', PStr ''s1''),
      (''current_stage'', PStr ''RETRIEVE''),
      (''execution_log'', PRef 0),
      (''created_at'', PTime demo_t0),
      (''updated_at'', PTime demo_t0),
      (''errors'', PRef 1)]"

definition demo_low :: dict where
  "demo_low = [(''solution_scores'', PDict [(''A'', PDict [(''overall_score'', PInt 85)])])]"

definition demo_ab :: dict where
  "demo_ab =
     [(''solution_scores'',
         PDict [(''A'', PDict [(''overall_score'', PInt 92)]),
                (''B'', PDict [(''overall_score'', PInt 95)])]),
      (''recommended_solution'', PStr ''A'')]"

definition demo_invalid :: dict where
  "demo_invalid =
     [(''customer_name'', PStr ''Jane Doe''),
      (''query'', PStr ''payment failed''),
      (''priority'', PStr ''high'')]"

definition demo_answers :: dict where
  "demo_answers = [(''account_id'', PStr ''ACC-12345'')]"

definition demo_extracted :: dict where
  "demo_extracted =
     [(''extracted_info'',
         PDict [(''account_id'', PStr ''ACC-12345''),
                (''error_date'', PStr ''2024-01-15''),
                (''error_message'', PStr ''Payment failed - card declined'')]),
      (''completeness'', PFloat (nearest_float 0.85))]"

definition demo_evaluation :: dict where
  "demo_evaluation =
     [(''solution_scores'',
         PDict [(''SOL-001'',
                   PDict [(''overall_score'', PInt 92),
                          (''relevance'', PInt 95),
                          (''complexity'', PInt 20),
                          (''success_rate'', PInt 88),
                          (''customer_satisfaction_predicted'', PFloat (nearest_float 4.2))]),
                (''SOL-002'',
                   PDict [(''overall_score'', PInt 78),
                          (''relevance'', PInt 85),
                          (''complexity'', PInt 40),
                          (''success_rate'', PInt 72),
                          (''customer_satisfaction_predicted'', PFloat (nearest_float 3.8))])]),
      (''recommended_solution'', PStr ''SOL-001''),
      (''confidence'', PFloat (nearest_float 0.92)),
      (''evaluation_criteria'',
         PList [PStr ''relevance_to_issue'', PStr ''historical_success_rate'',
                PStr ''implementation_complexity'',
                PStr ''customer_satisfaction_impact''])]"

definition demo_best :: pyval where
  "demo_best =
     PDict [(''solution_id'', PStr ''SOL-001''),
            (''score'', PInt 92),
            (''details'',
               PDict [(''overall_score'', PInt 92),
                      (''relevance'', PInt 95),
                      (''complexity'', PInt 20),
                      (''success_rate'', PInt 88),
                      (''customer_satisfaction_predicted'', PFloat (nearest_float 4.2))])]"

section \<open>The example session, evaluated\<close>

lemma demo_created_eval:
  "demo_created =
    (demo_state0,
     \<lparr>state_history = [''s1'' \<mapsto> [demo_state0]], store = (\<lambda>a. []), fresh = 2\<rparr>)"
  apply (simp add: demo_created_def create_initial_state_def StateManager_init_def alloc_def
      Let_def demo_t0_def demo_state0_def)
  apply (rule ext)
  apply simp
  done

lemma demo_ready_eval:
  "demo_ready = (Inr demo_state,
     \<lparr>state_history = [''s1'' \<mapsto> [demo_state0, demo_state]],
      store = (\<lambda>a. []), fresh = 2\<rparr>)"
  by (simp add: demo_ready_def demo_created_eval demo_fields_def update_state_def
      py_last_def list_object_def Let_def demo_state0_def demo_state_def)

lemma demo_session:
  "session_latest (snd demo_ready) ''s1'' demo_state"
  "list_slots demo_state 0 1"
  "store (snd demo_ready) = (\<lambda>a. [])"
  by (simp_all add: demo_ready_eval session_latest_def list_slots_def demo_state_def)

text \<open>
  A duration of 1.001 seconds is logged as 1000 milliseconds: the float nearest to
  1.001, times 1000, is a float below 1001.
\<close>

lemma elapsed_ms_rounds:
  "elapsed_ms (Datetime 0 [] []) (Datetime 1001000 [] []) = 1000"
  by code_simp

section \<open>Properties of the state manager\<close>

lemma update_state_history:
  assumes "update_state sm now sid updates stage = (Inr st, sm')"
  shows "\<exists>hist. state_history sm sid = Some hist \<and> hist \<noteq> []
           \<and> state_history sm' sid = Some (hist @ [st])"
proof -
  from assms obtain hist where h: "state_history sm sid = Some hist"
    by (auto simp: update_state_def split: option.splits)
  from assms h have ne: "hist \<noteq> []"
    by (auto simp: update_state_def py_last_def split: if_splits)
  from assms h ne have "state_history sm' sid = Some (hist @ [st])"
    by (auto simp: update_state_def py_last_def Let_def split: prod.splits sum.splits)
  with h ne show ?thesis by blast
qed

lemma update_calls_history:
  "update_calls sm sid calls = Inr sm' \<Longrightarrow> state_history sm sid = Some hist \<Longrightarrow> hist \<noteq> []
   \<Longrightarrow> \<exists>more. state_history sm' sid = Some (hist @ more) \<and> length more = length calls"
proof (induction calls arbitrary: sm hist)
  case Nil
  then show ?case by simp
next
  case (Cons c calls)
  obtain updates stage now where c: "c = (updates, stage, now)"
    by (cases c) auto
  from Cons.prems(1) c obtain st sm1 where
    step: "update_state sm now sid updates stage = (Inr st, sm1)" and
    rest: "update_calls sm1 sid calls = Inr sm'"
    by (auto split: prod.splits sum.splits)
  from update_state_history [OF step] Cons.prems(2)
  have h1: "state_history sm1 sid = Some (hist @ [st])" by auto
  from Cons.IH [OF rest h1] obtain more where
    "state_history sm' sid = Some ((hist @ [st]) @ more)" "length more = length calls"
    by auto
  then have "state_history sm' sid = Some (hist @ (st # more)) \<and>
             length (st # more) = length (c # calls)"
    by simp
  then show ?case by blast
qed

lemma create_initial_state_history:
  "create_initial_state sm sid now cn em q pr tid = (st0, sm0)
   \<Longrightarrow> state_history sm0 sid = Some [st0]"
  by (auto simp: create_initial_state_def Let_def alloc_def split: prod.splits)

text \<open>
  C7. For a session made by \<open>create_initial_state\<close> and any sequence of \<open>n\<close> calls of
  \<open>update_state\<close> on it that return, \<open>get_state_history\<close> gives \<open>n + 1\<close> versions, the
  first of them the initial version, and \<open>get_current_state\<close> gives the last of them.
\<close>

theorem history_length_and_latest:
  assumes "create_initial_state sm sid now cn em q pr tid = (st0, sm0)"
    and "update_calls sm0 sid calls = Inr sm'"
  shows "length (get_state_history sm' sid) = length calls + 1
         \<and> hd (get_state_history sm' sid) = st0
         \<and> get_current_state sm' sid = Inr (last (get_state_history sm' sid))"
proof -
  from create_initial_state_history [OF assms(1)]
  have h0: "state_history sm0 sid = Some [st0]" .
  from update_calls_history [OF assms(2) h0] obtain more where
    h: "state_history sm' sid = Some ([st0] @ more)" and n: "length more = length calls"
    by auto
  show ?thesis
    using h n by (simp add: get_state_history_def get_current_state_def py_last_def)
qed


theorem history_length_and_latest_witness:
  "create_initial_state StateManager_init ''s1'' (Datetime 0 ''20240115'' ''t0'')
       (PStr ''Jane'') (PStr ''jane@x.com'') (PStr ''payment failed'') (PStr ''high'') PNone
     = (fst (create_initial_state StateManager_init ''s1'' (Datetime 0 ''20240115'' ''t0'')
          (PStr ''Jane'') (PStr ''jane@x.com'') (PStr ''payment failed'') (PStr ''high'') PNone),
        snd (create_initial_state StateManager_init ''s1'' (Datetime 0 ''20240115'' ''t0'')
          (PStr ''Jane'') (PStr ''jane@x.com'') (PStr ''payment failed'') (PStr ''high'') PNone))
   \<and> length (get_state_history
        (projr (update_calls
           (snd (create_initial_state StateManager_init ''s1'' (Datetime 0 ''20240115'' ''t0'')
              (PStr ''Jane'') (PStr ''jane@x.com'') (PStr ''payment failed'') (PStr ''high'') PNone))
           ''s1''
           [([(''parsed_request'', PDict [])], ''UNDERSTAND'', Datetime 5 ''20240115'' ''t1''),
            ([(''bogus'', PInt 1)], ''PREPARE'', Datetime 9 ''20240115'' ''t2'')]))
        ''s1'') = 3"
proof -
  let ?c = "create_initial_state StateManager_init ''s1'' (Datetime 0 ''20240115'' ''t0'')
       (PStr ''Jane'') (PStr ''jane@x.com'') (PStr ''payment failed'') (PStr ''high'') PNone"
  let ?calls = "[([(''parsed_request'', PDict [])], ''UNDERSTAND'', Datetime 5 ''20240115'' ''t1''),
            ([(''bogus'', PInt 1)], ''PREPARE'', Datetime 9 ''20240115'' ''t2'')]"
  have c: "?c = (fst ?c, snd ?c)" by simp
  have "isl (update_calls (snd ?c) ''s1'' ?calls) = False"
    by (simp add: create_initial_state_def StateManager_init_def alloc_def Let_def
        update_state_def py_last_def list_object_def py_append_def)
  then have u: "update_calls (snd ?c) ''s1'' ?calls = Inr (projr (update_calls (snd ?c) ''s1'' ?calls))"
    by (cases "update_calls (snd ?c) ''s1'' ?calls") simp_all
  from history_length_and_latest [OF c u] show ?thesis by simp
qed

text \<open>
  C10. For a session id that the store does not hold, \<open>get_state_history\<close> returns the
  empty list, while \<open>get_current_state\<close>, \<open>update_state\<close> and \<open>log_stage_execution\<close>
  each raise the session-not-found \<open>ValueError\<close> and leave the manager as it was.
\<close>

theorem unknown_session_asymmetry:
  assumes "state_history sm sid = None"
  shows "get_state_history sm sid = []
         \<and> get_current_state sm sid = Inl (session_not_found sid)
         \<and> update_state sm now sid updates stage = (Inl (session_not_found sid), sm)
         \<and> log_stage_execution sm now sid i n s a sv d e out = (Inl (session_not_found sid), sm)"
  using assms
  by (simp add: get_state_history_def get_current_state_def update_state_def
      log_stage_execution_def)

theorem unknown_session_asymmetry_witness:
  "state_history StateManager_init ''nope'' = None
   \<and> get_state_history StateManager_init ''nope'' = []
   \<and> get_current_state StateManager_init ''nope''
       = Inl (ValueError ''Session ID nope not found'')
   \<and> update_state StateManager_init (Datetime 0 [] []) ''nope'' [(''query'', PNone)] ''ASK''
       = (Inl (ValueError ''Session ID nope not found''), StateManager_init)
   \<and> log_stage_execution StateManager_init (Datetime 0 [] []) ''nope'' 4 ''ASK'' COMPLETED
         None None None None None
       = (Inl (ValueError ''Session ID nope not found''), StateManager_init)"
proof -
  have h: "state_history StateManager_init ''nope'' = None"
    by (simp add: StateManager_init_def)
  from unknown_session_asymmetry [OF h] h show ?thesis
    by (simp add: session_not_found_def)
qed


subsection \<open>Shared list objects\<close>




lemma log_stage_execution_appends:
  assumes "state_history sm sid = Some hist" and "hist \<noteq> []"
    and "map_of (last hist) ''execution_log'' = Some (PRef l)"
    and "map_of (last hist) ''errors'' = Some (PRef e)" and "l \<noteq> e"
  shows "\<exists>sm'. log_stage_execution sm now sid i n s a sv d msg out = (Inr (), sm')
           \<and> state_history sm' = state_history sm
           \<and> store sm' l = store sm l
                @ [PLog (ExecutionLog i n now s (case a of None \<Rightarrow> [] | Some xs \<Rightarrow> xs) sv d msg out)]
           \<and> store sm' e = store sm e
                @ (case msg of None \<Rightarrow> [] | Some m \<Rightarrow> if m = [] then [] else [PStr (n @ '': '' @ m)])"
  using assms
  by (auto simp: log_stage_execution_def py_last_def state_item_def py_append_def Let_def
      split: option.splits)




section \<open>What a stage commits\<close>

lemma apply_updates_total:
  "map_of st ''errors'' = Some (PRef e) \<Longrightarrow> map_of us ''errors'' = None
   \<Longrightarrow> map_of us ''execution_log'' = None
   \<Longrightarrow> \<exists>st' sm'. apply_updates stage us st sm = (Inr st', sm')
         \<and> state_history sm' = state_history sm
         \<and> store sm' = (store sm)(e := store sm e @ unknown_notes stage st us)
         \<and> (\<forall>k. map_of st' k = updated_value st us k)"
proof (induction us arbitrary: st sm)
  case Nil
  then show ?case by (auto simp: unknown_notes_def updated_value_def split: option.splits)
next
  case (Cons u us)
  obtain key val where u: "u = (key, val)" by (cases u) auto
  from Cons.prems u have k1: "key \<noteq> ''errors''" "key \<noteq> ''execution_log''"
    and r: "map_of us ''errors'' = None" "map_of us ''execution_log'' = None"
    by (auto split: if_splits)
  show ?case
  proof (cases "map_of st key = None")
    case True
    let ?note = "PStr (''Unknown state key: '' @ key @ '' from stage '' @ stage)"
    let ?sm1 = "sm\<lparr>store := (store sm)(e := store sm e @ [?note])\<rparr>"
    from Cons.IH [OF Cons.prems(1) r, of ?sm1] obtain st' sm' where
      a: "apply_updates stage us st ?sm1 = (Inr st', sm')"
      and b: "state_history sm' = state_history ?sm1"
      and c: "store sm' = (store ?sm1)(e := store ?sm1 e @ unknown_notes stage st us)"
      and d: "\<forall>k. map_of st' k = updated_value st us k"
      by blast
    have "apply_updates stage (u # us) st sm = (Inr st', sm')"
      using True u Cons.prems(1) a by (simp add: py_append_def Let_def)
    moreover have "store sm' = (store sm)(e := store sm e @ unknown_notes stage st (u # us))"
      using c True u by (simp add: unknown_notes_def)
    moreover have "\<forall>k. map_of st' k = updated_value st (u # us) k"
      using d True u by (auto simp: updated_value_def split: option.splits if_splits)
    ultimately show ?thesis using b by auto
  next
    case False
    let ?st1 = "AList.update key val st"
    have e1: "map_of ?st1 ''errors'' = Some (PRef e)"
      using Cons.prems(1) k1 by (simp add: update_conv')
    from Cons.IH [OF e1 r, of sm] obtain st' sm' where
      a: "apply_updates stage us ?st1 sm = (Inr st', sm')"
      and b: "state_history sm' = state_history sm"
      and c: "store sm' = (store sm)(e := store sm e @ unknown_notes stage ?st1 us)"
      and d: "\<forall>k. map_of st' k = updated_value ?st1 us k"
      by blast
    have "apply_updates stage (u # us) st sm = (Inr st', sm')"
      using False u k1 a by (simp add: list_object_def)
    moreover have "unknown_notes stage ?st1 us = unknown_notes stage st (u # us)"
    proof -
      have same: "\<And>k. (map_of ?st1 k = None) = (map_of st k = None)"
        using False by (auto simp: update_conv')
      show ?thesis using False u unfolding unknown_notes_def same by simp
    qed
    moreover have "\<forall>k. map_of st' k = updated_value st (u # us) k"
      using d False u by (auto simp: updated_value_def update_conv' split: option.splits if_splits)
    ultimately show ?thesis using b c by auto
  qed
qed


lemma updated_value_untouched:
  assumes "map_of us k = None"
  shows "updated_value st us k = map_of st k"
proof -
  from assms have "map_of (rev us) k = None"
    by (simp add: map_of_eq_None_iff)
  then show ?thesis
    by (simp add: updated_value_def split: option.splits)
qed

lemma update_state_total:
  assumes "session_latest sm sid st" and "list_slots st l e"
    and "map_of us ''errors'' = None" and "map_of us ''execution_log'' = None"
  shows "\<exists>st' sm'. update_state sm now sid us stage = (Inr st', sm')
           \<and> session_latest sm' sid st'
           \<and> list_slots st' l e
           \<and> store sm' = (store sm)(e := store sm e @ unknown_notes stage st us)
           \<and> (\<forall>k. k \<noteq> ''current_stage'' \<longrightarrow> k \<noteq> ''updated_at''
                  \<longrightarrow> map_of st' k = updated_value st us k)"
proof -
  from assms(1) obtain hist where h: "state_history sm sid = Some hist" "hist \<noteq> []" "last hist = st"
    by (auto simp: session_latest_def split: option.splits)
  from assms(2) have e: "map_of st ''errors'' = Some (PRef e)"
    by (simp add: list_slots_def)
  from apply_updates_total [OF e assms(3,4), of stage sm] obtain st1 sm1 where
    a: "apply_updates stage us st sm = (Inr st1, sm1)"
    and b: "state_history sm1 = state_history sm"
    and c: "store sm1 = (store sm)(e := store sm e @ unknown_notes stage st us)"
    and d: "\<forall>k. map_of st1 k = updated_value st us k"
    by blast
  let ?st' = "AList.update ''updated_at'' (PTime now)
               (AList.update ''current_stage'' (PStr stage) st1)"
  let ?sm' = "sm1\<lparr>state_history := (state_history sm1)(sid \<mapsto> hist @ [?st'])\<rparr>"
  have u: "update_state sm now sid us stage = (Inr ?st', ?sm')"
    using h a by (simp add: update_state_def py_last_def Let_def)
  have v: "\<forall>k. k \<noteq> ''current_stage'' \<longrightarrow> k \<noteq> ''updated_at''
                  \<longrightarrow> map_of ?st' k = updated_value st us k"
    using d by (simp add: update_conv')
  have "map_of ?st' ''errors'' = map_of st ''errors''"
    "map_of ?st' ''execution_log'' = map_of st ''execution_log''"
    using v updated_value_untouched [OF assms(3), of st] updated_value_untouched [OF assms(4), of st]
    by simp_all
  then have "list_slots ?st' l e"
    using assms(2) by (simp add: list_slots_def)
  with u v c show ?thesis
    by (auto simp: session_latest_def)
qed


lemma stage_commit:
  assumes "session_latest sm sid st" and "list_slots st l e"
    and "map_of us ''errors'' = None" and "map_of us ''execution_log'' = None"
  shows "\<exists>st' sm1 sm2. update_state sm now sid us stage = (Inr st', sm1)
           \<and> log_stage_execution sm1 now sid i n s a sv d None out = (Inr (), sm2)
           \<and> session_latest sm2 sid st'
           \<and> list_slots st' l e
           \<and> (\<forall>k. k \<noteq> ''current_stage'' \<longrightarrow> k \<noteq> ''updated_at''
                  \<longrightarrow> map_of st' k = updated_value st us k)
           \<and> log_of sm2 st' = store sm l
                @ [PLog (ExecutionLog i n now s (case a of None \<Rightarrow> [] | Some xs \<Rightarrow> xs) sv d None out)]
           \<and> errors_of sm2 st' = store sm e @ unknown_notes stage st us"
proof -
  from update_state_total [OF assms, of now stage] obtain st' sm1 where
    u: "update_state sm now sid us stage = (Inr st', sm1)"
    and la: "session_latest sm1 sid st'"
    and sl: "list_slots st' l e"
    and st: "store sm1 = (store sm)(e := store sm e @ unknown_notes stage st us)"
    and v: "\<forall>k. k \<noteq> ''current_stage'' \<longrightarrow> k \<noteq> ''updated_at''
                  \<longrightarrow> map_of st' k = updated_value st us k"
    by blast
  from la obtain hist where h: "state_history sm1 sid = Some hist" "hist \<noteq> []" "last hist = st'"
    by (auto simp: session_latest_def split: option.splits)
  from sl h have slots: "map_of (last hist) ''execution_log'' = Some (PRef l)"
    "map_of (last hist) ''errors'' = Some (PRef e)" "l \<noteq> e"
    by (simp_all add: list_slots_def)
  from log_stage_execution_appends [OF h(1,2) slots, of now i n s a sv d None out]
  obtain sm2 where
    lg: "log_stage_execution sm1 now sid i n s a sv d None out = (Inr (), sm2)"
    and h2: "state_history sm2 = state_history sm1"
    and l2: "store sm2 l = store sm1 l
                @ [PLog (ExecutionLog i n now s (case a of None \<Rightarrow> [] | Some xs \<Rightarrow> xs) sv d None out)]"
    and e2: "store sm2 e = store sm1 e"
    by auto
  have "session_latest sm2 sid st'"
    using la h2 by (simp add: session_latest_def)
  moreover have "log_of sm2 st' = store sm l
                @ [PLog (ExecutionLog i n now s (case a of None \<Rightarrow> [] | Some xs \<Rightarrow> xs) sv d None out)]"
    using sl l2 st by (simp add: log_of_def state_get_def deref_def list_slots_def)
  moreover have "errors_of sm2 st' = store sm e @ unknown_notes stage st us"
    using sl e2 st by (simp add: errors_of_def state_get_def deref_def list_slots_def)
  ultimately show ?thesis
    using u lg sl v by blast
qed

lemma find_best_solution_dict:
  assumes "find_best_solution h ev = Inr r"
  shows "\<exists>d. ev = PDict d"
  using assms by (cases ev) (simp_all add: find_best_solution_def bindE_def py_get_def)

lemma DecideStage_steps_low:
  assumes "evaluate_solutions client h now st = Inr (PDict d)"
    and "find_best_solution h (PDict d) = Inr (best, score)"
    and "py_num score = Some q" and "q < 90"
    and "make_escalation_decision client h now st (PDict d) score = Inr details"
  shows "DecideStage_steps other client h now st =
           Inr ([(''solution_scores'', PDict d),
                 (''escalation_decision'', PBool True),
                 (''escalation_details'', details),
                 (''selected_solution'', PNone),
                 (''decision_reasoning'',
                    PStr (''Escalated due to low solution score ('' @ py_str other score @ '')'')),
                 (''decision_timestamp'', PStr (isoformat now)),
                 (''decision_confidence'', payload_get d ''confidence'' (PFloat 0.5))],
                [''solution_evaluation'', ''escalation_decision'', ''update_payload''])"
  using assms
  by (simp add: DecideStage_steps_def py_lt_def escalation_threshold_def py_get_def
      payload_get_def)

lemma DecideStage_steps_high:
  assumes "evaluate_solutions client h now st = Inr (PDict d)"
    and "find_best_solution h (PDict d) = Inr (best, score)"
    and "py_num score = Some q" and "90 \<le> q"
  shows "DecideStage_steps other client h now st =
           Inr ([(''solution_scores'', PDict d),
                 (''escalation_decision'', PBool False),
                 (''selected_solution'', best),
                 (''decision_reasoning'',
                    PStr (''Auto-resolved with solution score '' @ py_str other score)),
                 (''decision_timestamp'', PStr (isoformat now)),
                 (''decision_confidence'', payload_get d ''confidence'' (PFloat 0.5))],
                [''solution_evaluation'', ''update_payload''])"
  using assms
  by (simp add: DecideStage_steps_def py_lt_def escalation_threshold_def py_get_def
      payload_get_def)

lemma DecideStage_execute_commits:
  assumes "session_latest sm sid st" and "list_slots st l e"
    and "truthy (store sm) (state_get st ''retrieved_solutions'' PNone)"
    and "DecideStage_steps other client (store sm) now st = Inr (results, abilities)"
    and "map_of results ''errors'' = None" and "map_of results ''execution_log'' = None"
  shows "\<exists>st' sm'. DecideStage_execute other client sm start_time now sid = (Inr st', sm')
           \<and> session_latest sm' sid st'
           \<and> list_slots st' l e
           \<and> (\<forall>k. k \<noteq> ''current_stage'' \<longrightarrow> k \<noteq> ''updated_at''
                  \<longrightarrow> map_of st' k = updated_value st results k)
           \<and> log_of sm' st' = store sm l
                @ [PLog (ExecutionLog 7 ''DECIDE'' now COMPLETED abilities (Some ''COMMON,ATLAS'')
                     (Some (elapsed_ms start_time now)) None (Some results))]
           \<and> errors_of sm' st' = store sm e @ unknown_notes ''DECIDE'' st results"
proof -
  from assms(1) have g: "get_current_state sm sid = Inr st"
    by (auto simp: session_latest_def get_current_state_def py_last_def split: option.splits)
  from stage_commit [OF assms(1,2,5,6), of now "''DECIDE''" 7 "''DECIDE''" COMPLETED "Some abilities"
      "Some ''COMMON,ATLAS''" "Some (elapsed_ms start_time now)" "Some results"]
  obtain st' sm1 sm2 where
    "update_state sm now sid results ''DECIDE'' = (Inr st', sm1)"
    "log_stage_execution sm1 now sid 7 ''DECIDE'' COMPLETED (Some abilities)
       (Some ''COMMON,ATLAS'') (Some (elapsed_ms start_time now)) None (Some results) = (Inr (), sm2)"
    "session_latest sm2 sid st'" "list_slots st' l e"
    "\<forall>k. k \<noteq> ''current_stage'' \<longrightarrow> k \<noteq> ''updated_at''
                  \<longrightarrow> map_of st' k = updated_value st results k"
    "log_of sm2 st' = store sm l
                @ [PLog (ExecutionLog 7 ''DECIDE'' now COMPLETED abilities (Some ''COMMON,ATLAS'')
                     (Some (elapsed_ms start_time now)) None (Some results))]"
    "errors_of sm2 st' = store sm e @ unknown_notes ''DECIDE'' st results"
    by auto
  moreover from this g assms(3,4)
  have "DecideStage_execute other client sm start_time now sid = (Inr st', sm2)"
    by (simp add: DecideStage_execute_def)
  ultimately show ?thesis by blast
qed

section \<open>The DECIDE stage\<close>

lemma updated_value_known:
  assumes "map_of st k \<noteq> None" and "map_of (rev us) k = Some v"
  shows "updated_value st us k = Some v"
  using assms by (auto simp: updated_value_def split: option.splits)

text \<open>
  What the stage asks of the two servers. \<open>_make_escalation_decision\<close> on a state
  whose \<open>enriched_records\<close> and \<open>calculated_flags\<close> are dictionaries (or unset) sends
  one request to the external-systems server and returns its answer, or fails with its
  failure. \<open>_evaluate_solutions\<close> does not depend on that server.
\<close>

lemma make_escalation_decision_request:
  assumes "state_get st ''enriched_records'' (PDict []) = PDict records"
    and "state_get st ''calculated_flags'' (PDict []) = PDict flags"
    and "map_of st ''priority'' = Some priority"
    and "map_of st ''session_id'' = Some (PStr s)" and "s \<noteq> []"
  shows "make_escalation_decision client h now st ev score =
     (case simulate_atlas_response client
             \<lparr>ability_name = ''escalation_decision'',
              parameters = [(''solution_score'', score), (''threshold'', PInt 90)],
              request_context =
                [(''solution_scores'', ev),
                 (''best_score'', score),
                 (''escalation_threshold'', PInt 90),
                 (''customer_tier'', payload_get records ''customer_tier'' (PStr ''standard'')),
                 (''priority'', priority),
                 (''sla_risk'', payload_get flags ''sla_risk_score'' (PInt 50)),
                 (''customer_satisfaction_risk'',
                    payload_get flags ''customer_satisfaction_risk'' (PStr ''medium''))],
              session_id = s,
              request_timestamp = now\<rparr> of
        Inr details \<Rightarrow> Inr (PDict details)
      | Inl e \<Rightarrow> Inl (Exception (''Failed to make escalation decision: '' @ str_of_error e)))"
  using assms
  by (simp add: make_escalation_decision_def bindE_def py_get_def state_item_def
      execute_ability_def server_mapping_def call_atlas_server_def MCPResponse_new_def
      opt_dict_def str_opt_def Let_def payload_get_def escalation_threshold_def
      split: sum.splits)

lemma call_common_server_atlas:
  "call_common_server (client\<lparr>simulate_atlas_response := atlas\<rparr>) t0 t1 request
     = call_common_server client t0 t1 request"
  by (simp add: call_common_server_def)

lemma execute_solution_evaluation_atlas:
  "execute_ability (client\<lparr>simulate_atlas_response := atlas\<rparr>) h t0 t1
       ''solution_evaluation'' params ctx session
     = execute_ability client h t0 t1 ''solution_evaluation'' params ctx session"
  by (simp add: execute_ability_def server_mapping_def call_common_server_atlas Let_def
      split: pyval.splits)

lemma evaluate_solutions_atlas:
  "evaluate_solutions (client\<lparr>simulate_atlas_response := atlas\<rparr>) h now st
     = evaluate_solutions client h now st"
  unfolding evaluate_solutions_def execute_solution_evaluation_atlas ..

text \<open>
  C5. Let the latest state of a session hold the keys DECIDE writes and a non-empty
  \<open>retrieved_solutions\<close>, let the \<open>solution_evaluation\<close> ability answer \<open>ev\<close>, and let
  \<open>_find_best_solution\<close> give the best score \<open>q\<close> for it.

  If \<open>q\<close> is below the fixed threshold 90, the stage invokes the \<open>escalation_decision\<close>
  ability: the request of that name goes to the external-systems server, with the
  parameters \<open>solution_score\<close> (the best score) and \<open>threshold\<close> (90) and with the
  context the stage takes from the state, whose \<open>enriched_records\<close> and
  \<open>calculated_flags\<close> are dictionaries or unset. When the server answers \<open>details\<close> to
  this request, the stage completes with \<open>escalation_decision = True\<close>,
  \<open>selected_solution = None\<close> and the reasoning
  \<open>Escalated due to low solution score (<score>)\<close>; its log entry lists the abilities
  \<open>solution_evaluation\<close>, \<open>escalation_decision\<close>, \<open>update_payload\<close>, and the output of
  that entry holds the server's answer under \<open>escalation_details\<close>.

  Otherwise the stage completes with \<open>escalation_decision = False\<close>, the best solution
  as \<open>selected_solution\<close>, the reasoning \<open>Auto-resolved with solution score <score>\<close>
  and a log entry that lists \<open>solution_evaluation\<close> and \<open>update_payload\<close> only. It
  does not invoke the \<open>escalation_decision\<close> ability, which is routed to the
  external-systems server: the outcome is the same whatever function stands for that
  server.
\<close>

theorem decide_escalation_branch:
  assumes "session_latest sm sid st" and "list_slots st l e"
    and "known_keys st [''solution_scores'', ''escalation_decision'', ''selected_solution'',
                        ''decision_reasoning'']"
    and "truthy (store sm) (state_get st ''retrieved_solutions'' PNone)"
    and "evaluate_solutions client (store sm) now st = Inr ev"
    and "find_best_solution (store sm) ev = Inr (best, score)"
    and "py_num score = Some q"
    and "q < 90 \<longrightarrow>
           state_get st ''enriched_records'' (PDict []) = PDict records
         \<and> state_get st ''calculated_flags'' (PDict []) = PDict flags
         \<and> map_of st ''priority'' = Some priority
         \<and> map_of st ''session_id'' = Some (PStr s) \<and> s \<noteq> []
         \<and> simulate_atlas_response client
             \<lparr>ability_name = ''escalation_decision'',
              parameters = [(''solution_score'', score), (''threshold'', PInt 90)],
              request_context =
                [(''solution_scores'', ev),
                 (''best_score'', score),
                 (''escalation_threshold'', PInt 90),
                 (''customer_tier'', payload_get records ''customer_tier'' (PStr ''standard'')),
                 (''priority'', priority),
                 (''sla_risk'', payload_get flags ''sla_risk_score'' (PInt 50)),
                 (''customer_satisfaction_risk'',
                    payload_get flags ''customer_satisfaction_risk'' (PStr ''medium''))],
              session_id = s,
              request_timestamp = now\<rparr> = Inr details"
  shows "\<exists>st' sm'. DecideStage_execute other client sm start_time now sid = (Inr st', sm')
     \<and> session_latest sm' sid st'
     \<and> map_of st' ''solution_scores'' = Some ev
     \<and> map_option status (as_log (last (log_of sm' st'))) = Some COMPLETED
     \<and> (if q < 90
        then map_of st' ''escalation_decision'' = Some (PBool True)
           \<and> map_of st' ''selected_solution'' = Some PNone
           \<and> map_of st' ''decision_reasoning''
               = Some (PStr (''Escalated due to low solution score ('' @ py_str other score @ '')''))
           \<and> map_option abilities_executed (as_log (last (log_of sm' st')))
               = Some [''solution_evaluation'', ''escalation_decision'', ''update_payload'']
           \<and> (\<exists>out. map_option log_output (as_log (last (log_of sm' st'))) = Some (Some out)
                  \<and> map_of out ''escalation_details'' = Some (PDict details))
        else map_of st' ''escalation_decision'' = Some (PBool False)
           \<and> map_of st' ''selected_solution'' = Some best
           \<and> map_of st' ''decision_reasoning''
               = Some (PStr (''Auto-resolved with solution score '' @ py_str other score))
           \<and> map_option abilities_executed (as_log (last (log_of sm' st')))
               = Some [''solution_evaluation'', ''update_payload'']
           \<and> (\<forall>atlas. DecideStage_execute other (client\<lparr>simulate_atlas_response := atlas\<rparr>)
                          sm start_time now sid = (Inr st', sm')))"
proof -
  from find_best_solution_dict [OF assms(6)] obtain d where ev: "ev = PDict d" by blast
  from assms(3) have keys: "map_of st ''solution_scores'' \<noteq> None"
    "map_of st ''escalation_decision'' \<noteq> None" "map_of st ''selected_solution'' \<noteq> None"
    "map_of st ''decision_reasoning'' \<noteq> None"
    by (simp_all add: known_keys_def)
  show ?thesis
  proof (cases "q < 90")
    case True
    let ?results = "[(''solution_scores'', PDict d),
                 (''escalation_decision'', PBool True),
                 (''escalation_details'', PDict details),
                 (''selected_solution'', PNone),
                 (''decision_reasoning'',
                    PStr (''Escalated due to low solution score ('' @ py_str other score @ '')'')),
                 (''decision_timestamp'', PStr (isoformat now)),
                 (''decision_confidence'', payload_get d ''confidence'' (PFloat 0.5))]"
    let ?abilities = "[''solution_evaluation'', ''escalation_decision'', ''update_payload'']"
    from True assms(8) have rd: "state_get st ''enriched_records'' (PDict []) = PDict records"
      and fl: "state_get st ''calculated_flags'' (PDict []) = PDict flags"
      and pr: "map_of st ''priority'' = Some priority"
      and se: "map_of st ''session_id'' = Some (PStr s)" "s \<noteq> []"
      and answer: "simulate_atlas_response client
             \<lparr>ability_name = ''escalation_decision'',
              parameters = [(''solution_score'', score), (''threshold'', PInt 90)],
              request_context =
                [(''solution_scores'', ev),
                 (''best_score'', score),
                 (''escalation_threshold'', PInt 90),
                 (''customer_tier'', payload_get records ''customer_tier'' (PStr ''standard'')),
                 (''priority'', priority),
                 (''sla_risk'', payload_get flags ''sla_risk_score'' (PInt 50)),
                 (''customer_satisfaction_risk'',
                    payload_get flags ''customer_satisfaction_risk'' (PStr ''medium''))],
              session_id = s,
              request_timestamp = now\<rparr> = Inr details"
      by simp_all
    have esc: "make_escalation_decision client (store sm) now st (PDict d) score
                 = Inr (PDict details)"
      using make_escalation_decision_request [OF rd fl pr se, of client "store sm" now ev score]
        answer ev by simp
    have steps: "DecideStage_steps other client (store sm) now st = Inr (?results, ?abilities)"
      using DecideStage_steps_low [OF assms(5) [unfolded ev] assms(6) [unfolded ev] assms(7) True esc] .
    have no: "map_of ?results ''errors'' = None" "map_of ?results ''execution_log'' = None"
      by simp_all
    from DecideStage_execute_commits [OF assms(1,2,4) steps no]
    obtain st' sm' where
      r: "DecideStage_execute other client sm start_time now sid = (Inr st', sm')"
      "session_latest sm' sid st'"
      and v: "\<forall>k. k \<noteq> ''current_stage'' \<longrightarrow> k \<noteq> ''updated_at''
                  \<longrightarrow> map_of st' k = updated_value st ?results k"
      and lg: "log_of sm' st' = store sm l
                @ [PLog (ExecutionLog 7 ''DECIDE'' now COMPLETED ?abilities (Some ''COMMON,ATLAS'')
                     (Some (elapsed_ms start_time now)) None (Some ?results))]"
      by blast
    have "map_of st' ''solution_scores'' = Some ev"
      "map_of st' ''escalation_decision'' = Some (PBool True)"
      "map_of st' ''selected_solution'' = Some PNone"
      "map_of st' ''decision_reasoning''
         = Some (PStr (''Escalated due to low solution score ('' @ py_str other score @ '')''))"
      using v keys ev by (simp_all add: updated_value_known)
    with r lg True show ?thesis by simp
  next
    case False
    let ?results = "[(''solution_scores'', PDict d),
                 (''escalation_decision'', PBool False),
                 (''selected_solution'', best),
                 (''decision_reasoning'',
                    PStr (''Auto-resolved with solution score '' @ py_str other score)),
                 (''decision_timestamp'', PStr (isoformat now)),
                 (''decision_confidence'', payload_get d ''confidence'' (PFloat 0.5))]"
    let ?abilities = "[''solution_evaluation'', ''update_payload'']"
    from False have ge: "90 \<le> q" by simp
    have steps: "DecideStage_steps other client (store sm) now st = Inr (?results, ?abilities)"
      using DecideStage_steps_high [OF assms(5) [unfolded ev] assms(6) [unfolded ev] assms(7) ge] .
    have no: "map_of ?results ''errors'' = None" "map_of ?results ''execution_log'' = None"
      by simp_all
    from DecideStage_execute_commits [OF assms(1,2,4) steps no]
    obtain st' sm' where
      r: "DecideStage_execute other client sm start_time now sid = (Inr st', sm')"
      "session_latest sm' sid st'"
      and v: "\<forall>k. k \<noteq> ''current_stage'' \<longrightarrow> k \<noteq> ''updated_at''
                  \<longrightarrow> map_of st' k = updated_value st ?results k"
      and lg: "log_of sm' st' = store sm l
                @ [PLog (ExecutionLog 7 ''DECIDE'' now COMPLETED ?abilities (Some ''COMMON,ATLAS'')
                     (Some (elapsed_ms start_time now)) None (Some ?results))]"
      by blast
    have same: "DecideStage_execute other (client\<lparr>simulate_atlas_response := atlas\<rparr>)
                  sm start_time now sid = (Inr st', sm')" for atlas
    proof -
      let ?c = "client\<lparr>simulate_atlas_response := atlas\<rparr>"
      have "evaluate_solutions ?c (store sm) now st = Inr (PDict d)"
        using assms(5) ev by (simp add: evaluate_solutions_atlas)
      from DecideStage_steps_high [OF this assms(6) [unfolded ev] assms(7) ge]
      have "DecideStage_steps other ?c (store sm) now st
              = DecideStage_steps other client (store sm) now st"
        using steps by simp
      moreover from assms(1) have "get_current_state sm sid = Inr st"
        by (auto simp: session_latest_def get_current_state_def py_last_def split: option.splits)
      ultimately have "DecideStage_execute other ?c sm start_time now sid
                   = DecideStage_execute other client sm start_time now sid"
        by (simp add: DecideStage_execute_def)
      with r show ?thesis by simp
    qed
    have "map_of st' ''solution_scores'' = Some ev"
      "map_of st' ''escalation_decision'' = Some (PBool False)"
      "map_of st' ''selected_solution'' = Some best"
      "map_of st' ''decision_reasoning''
         = Some (PStr (''Auto-resolved with solution score '' @ py_str other score))"
      using v keys ev by (simp_all add: updated_value_known)
    with r lg False same show ?thesis by simp
  qed
qed

lemma demo_evaluate:
  "evaluate_solutions (demo_client answer) (store (snd demo_ready)) demo_t1 demo_state
     = Inr (PDict answer)"
  by (simp add: evaluate_solutions_def bindE_def py_get_def state_get_def state_item_def
      demo_state_def execute_ability_def server_mapping_def call_common_server_def
      MCPResponse_new_def demo_client_def opt_dict_def Let_def)

lemma demo_known_keys:
  "known_keys demo_state [''solution_scores'', ''escalation_decision'', ''selected_solution'',
                          ''decision_reasoning'']"
  "truthy h (state_get demo_state ''retrieved_solutions'' PNone)"
  by (simp_all add: known_keys_def demo_state_def state_get_def)

lemma demo_escalation:
  assumes "py_num score = Some q"
  shows "\<exists>details. make_escalation_decision (demo_client answer) (store (snd demo_ready)) demo_t1
           demo_state ev score = Inr details"
  using assms
  by (simp add: make_escalation_decision_def bindE_def py_get_def state_get_def state_item_def
      demo_state_def execute_ability_def server_mapping_def call_atlas_server_def
      MCPResponse_new_def demo_client_def opt_dict_def Let_def simulate_atlas_def
      payload_get_def py_lt_def)

lemma show_int_85: "show_int 85 = ''85''"
  by code_simp

theorem decide_escalation_branch_witness:
  "session_latest (snd demo_ready) ''s1'' demo_state
   \<and> find_best_solution (store (snd demo_ready)) (PDict demo_low)
       = Inr (PDict [(''solution_id'', PStr ''A''), (''score'', PInt 85),
                     (''details'', PDict [(''overall_score'', PInt 85)])], PInt 85)
   \<and> (\<exists>st' sm'. DecideStage_execute (\<lambda>v. []) (demo_client demo_low) (snd demo_ready)
                    demo_t0 demo_t1 ''s1'' = (Inr st', sm')
          \<and> map_of st' ''escalation_decision'' = Some (PBool True)
          \<and> map_of st' ''selected_solution'' = Some PNone
          \<and> map_of st' ''decision_reasoning''
              = Some (PStr ''Escalated due to low solution score (85)'')
          \<and> (\<exists>out. map_option log_output (as_log (last (log_of sm' st'))) = Some (Some out)
                 \<and> map_of out ''escalation_details''
                     = Some (PDict [(''should_escalate'', PBool True),
                                    (''escalation_reason'',
                                       PStr ''Solution confidence below threshold''),
                                    (''assigned_agent'', PStr ''senior_agent_001''),
                                    (''escalation_priority'', PStr ''medium'')])))"
proof -
  have fb: "find_best_solution (store (snd demo_ready)) (PDict demo_low)
       = Inr (PDict [(''solution_id'', PStr ''A''), (''score'', PInt 85),
                     (''details'', PDict [(''overall_score'', PInt 85)])], PInt 85)"
    by (simp add: find_best_solution_def bindE_def py_get_def demo_low_def py_gt_def
        dict_find_def py_item_def py_get_dyn_def)
  have num: "py_num (PInt 85) = Some 85" by simp
  have esc: "(85::rat) < 90 \<longrightarrow>
           state_get demo_state ''enriched_records'' (PDict [])
             = PDict [(''customer_tier'', PStr ''premium'')]
         \<and> state_get demo_state ''calculated_flags'' (PDict [])
             = PDict [(''sla_risk_score'', PInt 75)]
         \<and> map_of demo_state ''priority'' = Some (PStr ''high'')
         \<and> map_of demo_state ''session_id'' = Some (PStr ''s1'') \<and> ''s1'' \<noteq> []
         \<and> simulate_atlas_response (demo_client demo_low)
             \<lparr>ability_name = ''escalation_decision'',
              parameters = [(''solution_score'', PInt 85), (''threshold'', PInt 90)],
              request_context =
                [(''solution_scores'', PDict demo_low),
                 (''best_score'', PInt 85),
                 (''escalation_threshold'', PInt 90),
                 (''customer_tier'',
                    payload_get [(''customer_tier'', PStr ''premium'')] ''customer_tier''
                      (PStr ''standard'')),
                 (''priority'', PStr ''high''),
                 (''sla_risk'',
                    payload_get [(''sla_risk_score'', PInt 75)] ''sla_risk_score'' (PInt 50)),
                 (''customer_satisfaction_risk'',
                    payload_get [(''sla_risk_score'', PInt 75)] ''customer_satisfaction_risk''
                      (PStr ''medium''))],
              session_id = ''s1'',
              request_timestamp = demo_t1\<rparr>
           = Inr [(''should_escalate'', PBool True),
                  (''escalation_reason'', PStr ''Solution confidence below threshold''),
                  (''assigned_agent'', PStr ''senior_agent_001''),
                  (''escalation_priority'', PStr ''medium'')]"
    by (simp add: state_get_def demo_state_def demo_client_def simulate_atlas_def Let_def
        payload_get_def bindE_def py_lt_def)
  from decide_escalation_branch [OF demo_session(1,2) demo_known_keys demo_evaluate fb num esc,
      of "\<lambda>v. []" demo_t0]
  show ?thesis
    using demo_session(1) fb by (auto simp: py_str_def show_int_85)
qed

text \<open>
  The other answer to the same request: when the external-systems server fails on it,
  the stage fails with \<open>Failed to make escalation decision: <message>\<close>, and the log
  entry of the failure lists \<open>solution_evaluation\<close> only.
\<close>

lemma decide_escalation_refused:
  assumes "session_latest sm sid st" and "list_slots st l e"
    and "truthy (store sm) (state_get st ''retrieved_solutions'' PNone)"
    and "evaluate_solutions client (store sm) now st = Inr ev"
    and "find_best_solution (store sm) ev = Inr (best, score)"
    and "py_num score = Some q" and "q < 90"
    and "state_get st ''enriched_records'' (PDict []) = PDict records"
    and "state_get st ''calculated_flags'' (PDict []) = PDict flags"
    and "map_of st ''priority'' = Some priority"
    and "map_of st ''session_id'' = Some (PStr s)" and "s \<noteq> []"
    and "simulate_atlas_response client
             \<lparr>ability_name = ''escalation_decision'',
              parameters = [(''solution_score'', score), (''threshold'', PInt 90)],
              request_context =
                [(''solution_scores'', ev),
                 (''best_score'', score),
                 (''escalation_threshold'', PInt 90),
                 (''customer_tier'', payload_get records ''customer_tier'' (PStr ''standard'')),
                 (''priority'', priority),
                 (''sla_risk'', payload_get flags ''sla_risk_score'' (PInt 50)),
                 (''customer_satisfaction_risk'',
                    payload_get flags ''customer_satisfaction_risk'' (PStr ''medium''))],
              session_id = s,
              request_timestamp = now\<rparr> = Inl failure"
  shows "\<exists>sm'. DecideStage_execute other client sm start_time now sid
             = (Inl (Exception (''Failed to make escalation decision: ''
                                @ str_of_error failure)), sm')
         \<and> session_latest sm' sid st
         \<and> map_option status (as_log (last (log_of sm' st))) = Some FAILED
         \<and> map_option abilities_executed (as_log (last (log_of sm' st)))
             = Some [''solution_evaluation'']"
proof -
  let ?e = "Exception (''Failed to make escalation decision: '' @ str_of_error failure)"
  from assms(1) obtain hist where h: "state_history sm sid = Some hist" "hist \<noteq> []"
    "last hist = st"
    by (auto simp: session_latest_def split: option.splits)
  from h have g: "get_current_state sm sid = Inr st"
    by (simp add: get_current_state_def py_last_def)
  from assms(2) h have slots: "map_of (last hist) ''execution_log'' = Some (PRef l)"
    "map_of (last hist) ''errors'' = Some (PRef e)" "l \<noteq> e"
    by (simp_all add: list_slots_def)
  have esc: "make_escalation_decision client (store sm) now st ev score = Inl ?e"
    using make_escalation_decision_request [OF assms(8-12), of client "store sm" now ev score]
      assms(13) by simp
  have steps: "DecideStage_steps other client (store sm) now st
                 = Inl (?e, [''solution_evaluation''])"
    using assms(4-7) esc
    by (simp add: DecideStage_steps_def py_lt_def escalation_threshold_def)
  from log_stage_execution_appends [OF h(1,2) slots, of now 7 "''DECIDE''" FAILED
      "Some [''solution_evaluation'']" None "Some (elapsed_ms start_time now)"
      "Some (str_of_error ?e)" None]
  obtain sm' where
    lg: "log_stage_execution sm now sid 7 ''DECIDE'' FAILED (Some [''solution_evaluation''])
           None (Some (elapsed_ms start_time now)) (Some (str_of_error ?e)) None = (Inr (), sm')"
    and h': "state_history sm' = state_history sm"
    and l': "store sm' l = store sm l
                @ [PLog (ExecutionLog 7 ''DECIDE'' now FAILED [''solution_evaluation''] None
                     (Some (elapsed_ms start_time now)) (Some (str_of_error ?e)) None)]"
    by auto
  have "DecideStage_execute other client sm start_time now sid = (Inl ?e, sm')"
    using g assms(3) steps lg by (simp add: DecideStage_execute_def DecideStage_failed_def)
  moreover have "session_latest sm' sid st"
    using assms(1) h' by (simp add: session_latest_def)
  moreover have "log_of sm' st = store sm l
                @ [PLog (ExecutionLog 7 ''DECIDE'' now FAILED [''solution_evaluation''] None
                     (Some (elapsed_ms start_time now)) (Some (str_of_error ?e)) None)]"
    using assms(2) l' by (simp add: log_of_def state_get_def deref_def list_slots_def)
  ultimately show ?thesis by simp
qed

lemma best_loop_total:
  "list_all (\<lambda>kv. scored (snd kv)) ss \<Longrightarrow> py_num bs \<noteq> None
   \<Longrightarrow> \<exists>bid bs'. best_loop ss b bs = Inr (bid, bs')"
proof (induction ss arbitrary: b bs)
  case Nil
  then show ?case by simp
next
  case (Cons kv ss)
  obtain k v where kv: "kv = (k, v)" by (cases kv) auto
  from Cons.prems(1) kv obtain entry where v: "v = PDict entry"
    and sc: "case map_of entry ''overall_score'' of None \<Rightarrow> True | Some x \<Rightarrow> py_num x \<noteq> None"
    and rest: "list_all (\<lambda>kv. scored (snd kv)) ss"
    by (auto simp: scored_def split: pyval.splits)
  let ?o = "case map_of entry ''overall_score'' of None \<Rightarrow> PInt 0 | Some x \<Rightarrow> x"
  from sc have n: "py_num ?o \<noteq> None"
    by (auto split: option.splits)
  then obtain x where x: "py_num ?o = Some x" by auto
  from Cons.prems(2) obtain y where y: "py_num bs = Some y" by auto
  have step: "best_loop (kv # ss) b bs =
          (if x > y then best_loop ss (PStr k) ?o else best_loop ss b bs)"
    using kv v x y by (simp add: py_get_def py_gt_def)
  show ?case
  proof (cases "x > y")
    case True
    with step Cons.IH [OF rest n, of "PStr k"] show ?thesis by simp
  next
    case False
    with step Cons.IH [OF rest Cons.prems(2), of b] show ?thesis by simp
  qed
qed

lemma find_best_solution_recommended:
  assumes "map_of d ''solution_scores'' = Some (PDict ss)"
    and "list_all (\<lambda>kv. scored (snd kv)) ss"
    and "map_of d ''recommended_solution'' = Some (PStr r)" and "r \<noteq> []"
    and "map_of ss r = Some (PDict entry)" and "map_of entry ''overall_score'' = Some score"
  shows "find_best_solution h (PDict d)
           = Inr (PDict [(''solution_id'', PStr r), (''score'', score),
                         (''details'', PDict entry)], score)"
proof -
  from assms(5) have ne: "ss \<noteq> []" by auto
  have "py_num (PFloat 0) \<noteq> None" by simp
  from best_loop_total [OF assms(2) this, of PNone] obtain hid hs where
    "best_loop ss PNone (PFloat 0) = Inr (hid, hs)" by blast
  with assms ne show ?thesis
    by (simp add: find_best_solution_def bindE_def py_get_def dict_find_def py_item_def
        py_get_dyn_def)
qed

lemma find_best_solution_empty:
  assumes "\<not> truthy h (payload_get d ''solution_scores'' (PDict []))"
  shows "find_best_solution h (PDict d) = Inr (PDict [], PFloat 0)"
  using assms
  by (simp add: find_best_solution_def bindE_def py_get_def payload_get_def)

text \<open>
  C6. Let the answer of the \<open>solution_evaluation\<close> ability name a recommended solution
  that is among the scored solutions. Then \<open>_find_best_solution\<close> takes it, with its own
  score, as the best solution whatever the scores of the other solutions are, and when
  that score is at least 90 the stage completes with it as \<open>selected_solution\<close> and
  \<open>escalation_decision = False\<close>.
\<close>

theorem recommended_solution_is_selected:
  assumes "session_latest sm sid st" and "list_slots st l e"
    and "known_keys st [''solution_scores'', ''escalation_decision'', ''selected_solution'',
                        ''decision_reasoning'']"
    and "truthy (store sm) (state_get st ''retrieved_solutions'' PNone)"
    and "evaluate_solutions client (store sm) now st = Inr (PDict d)"
    and "map_of d ''solution_scores'' = Some (PDict ss)"
    and "list_all (\<lambda>kv. scored (snd kv)) ss"
    and "map_of d ''recommended_solution'' = Some (PStr r)" and "r \<noteq> []"
    and "map_of ss r = Some (PDict entry)" and "map_of entry ''overall_score'' = Some score"
    and "py_num score = Some q"
  shows "find_best_solution (store sm) (PDict d)
           = Inr (PDict [(''solution_id'', PStr r), (''score'', score),
                         (''details'', PDict entry)], score)
     \<and> (90 \<le> q \<longrightarrow>
          (\<exists>st' sm'. DecideStage_execute other client sm start_time now sid = (Inr st', sm')
             \<and> map_of st' ''selected_solution''
                 = Some (PDict [(''solution_id'', PStr r), (''score'', score),
                                (''details'', PDict entry)])
             \<and> map_of st' ''escalation_decision'' = Some (PBool False)))"
proof -
  let ?best = "PDict [(''solution_id'', PStr r), (''score'', score), (''details'', PDict entry)]"
  have fb: "find_best_solution (store sm) (PDict d) = Inr (?best, score)"
    by (rule find_best_solution_recommended [OF assms(6-11)])
  have "\<exists>st' sm'. DecideStage_execute other client sm start_time now sid = (Inr st', sm')
             \<and> map_of st' ''selected_solution'' = Some ?best
             \<and> map_of st' ''escalation_decision'' = Some (PBool False)" if ge: "90 \<le> q"
  proof -
    let ?results = "[(''solution_scores'', PDict d),
                 (''escalation_decision'', PBool False),
                 (''selected_solution'', ?best),
                 (''decision_reasoning'',
                    PStr (''Auto-resolved with solution score '' @ py_str other score)),
                 (''decision_timestamp'', PStr (isoformat now)),
                 (''decision_confidence'', payload_get d ''confidence'' (PFloat 0.5))]"
    have steps: "DecideStage_steps other client (store sm) now st
                   = Inr (?results, [''solution_evaluation'', ''update_payload''])"
      using DecideStage_steps_high [OF assms(5) fb assms(12) ge] .
    have no: "map_of ?results ''errors'' = None" "map_of ?results ''execution_log'' = None"
      by simp_all
    from DecideStage_execute_commits [OF assms(1,2,4) steps no]
    obtain st' sm' where
      r: "DecideStage_execute other client sm start_time now sid = (Inr st', sm')"
      and v: "\<forall>k. k \<noteq> ''current_stage'' \<longrightarrow> k \<noteq> ''updated_at''
                  \<longrightarrow> map_of st' k = updated_value st ?results k"
      by blast
    from assms(3) have keys: "map_of st ''escalation_decision'' \<noteq> None"
      "map_of st ''selected_solution'' \<noteq> None"
      by (simp_all add: known_keys_def)
    have "map_of st' ''selected_solution'' = Some ?best"
      "map_of st' ''escalation_decision'' = Some (PBool False)"
      using v keys by (simp_all add: updated_value_known)
    with r show ?thesis by blast
  qed
  with fb show ?thesis by blast
qed

theorem recommended_solution_is_selected_witness:
  "find_best_solution (store (snd demo_ready)) (PDict demo_ab)
     = Inr (PDict [(''solution_id'', PStr ''A''), (''score'', PInt 92),
                   (''details'', PDict [(''overall_score'', PInt 92)])], PInt 92)
   \<and> (\<exists>st' sm'. DecideStage_execute (\<lambda>v. []) (demo_client demo_ab) (snd demo_ready)
                    demo_t0 demo_t1 ''s1'' = (Inr st', sm')
          \<and> map_of st' ''selected_solution''
              = Some (PDict [(''solution_id'', PStr ''A''), (''score'', PInt 92),
                             (''details'', PDict [(''overall_score'', PInt 92)])])
          \<and> map_of st' ''escalation_decision'' = Some (PBool False))"
proof -
  have a: "map_of demo_ab ''solution_scores''
             = Some (PDict [(''A'', PDict [(''overall_score'', PInt 92)]),
                            (''B'', PDict [(''overall_score'', PInt 95)])])"
    by (simp add: demo_ab_def)
  have b: "list_all (\<lambda>kv. scored (snd kv))
             [(''A'', PDict [(''overall_score'', PInt 92)]),
              (''B'', PDict [(''overall_score'', PInt 95)])]"
    by (simp add: scored_def)
  have c: "map_of demo_ab ''recommended_solution'' = Some (PStr ''A'')"
    by (simp add: demo_ab_def)
  have d: "''A'' \<noteq> []" by simp
  have e: "map_of [(''A'', PDict [(''overall_score'', PInt 92)]),
                   (''B'', PDict [(''overall_score'', PInt 95)])] ''A''
             = Some (PDict [(''overall_score'', PInt 92)])"
    by simp
  have f: "map_of [(''overall_score'', PInt 92)] ''overall_score'' = Some (PInt 92)"
    by simp
  have g: "py_num (PInt 92) = Some 92" by simp
  from recommended_solution_is_selected [OF demo_session(1,2) demo_known_keys demo_evaluate
      a b c d e f g, of "\<lambda>v. []" demo_t0]
  show ?thesis by simp
qed

text \<open>
  C9. When the answer of the \<open>solution_evaluation\<close> ability has no \<open>solution_scores\<close>, or
  an empty one, \<open>_find_best_solution\<close> returns the empty best solution with the score
  \<open>0.0\<close> and does not fail; the stage then takes the escalation branch and (the
  \<open>escalation_decision\<close> ability answering) completes with \<open>escalation_decision = True\<close>
  and \<open>selected_solution = None\<close>.
\<close>

theorem empty_scores_escalate:
  assumes "session_latest sm sid st" and "list_slots st l e"
    and "known_keys st [''solution_scores'', ''escalation_decision'', ''selected_solution'',
                        ''decision_reasoning'']"
    and "truthy (store sm) (state_get st ''retrieved_solutions'' PNone)"
    and "evaluate_solutions client (store sm) now st = Inr (PDict d)"
    and "\<not> truthy (store sm) (payload_get d ''solution_scores'' (PDict []))"
    and "make_escalation_decision client (store sm) now st (PDict d) (PFloat 0) = Inr details"
  shows "find_best_solution (store sm) (PDict d) = Inr (PDict [], PFloat 0)
     \<and> (\<exists>st' sm'. DecideStage_execute other client sm start_time now sid = (Inr st', sm')
           \<and> map_of st' ''escalation_decision'' = Some (PBool True)
           \<and> map_of st' ''selected_solution'' = Some PNone
           \<and> map_of st' ''decision_reasoning''
               = Some (PStr (''Escalated due to low solution score ('' @ other (PFloat 0) @ '')''))
           \<and> map_option abilities_executed (as_log (last (log_of sm' st')))
               = Some [''solution_evaluation'', ''escalation_decision'', ''update_payload''])"
proof -
  have fb: "find_best_solution (store sm) (PDict d) = Inr (PDict [], PFloat 0)"
    by (rule find_best_solution_empty [OF assms(6)])
  let ?results = "[(''solution_scores'', PDict d),
                 (''escalation_decision'', PBool True),
                 (''escalation_details'', details),
                 (''selected_solution'', PNone),
                 (''decision_reasoning'',
                    PStr (''Escalated due to low solution score (''
                          @ py_str other (PFloat 0) @ '')'')),
                 (''decision_timestamp'', PStr (isoformat now)),
                 (''decision_confidence'', payload_get d ''confidence'' (PFloat 0.5))]"
  let ?abilities = "[''solution_evaluation'', ''escalation_decision'', ''update_payload'']"
  have num: "py_num (PFloat 0) = Some 0" by simp
  have low: "(0::rat) < 90" by simp
  have steps: "DecideStage_steps other client (store sm) now st = Inr (?results, ?abilities)"
    using DecideStage_steps_low [OF assms(5) fb num low assms(7)] .
  have no: "map_of ?results ''errors'' = None" "map_of ?results ''execution_log'' = None"
    by simp_all
  from DecideStage_execute_commits [OF assms(1,2,4) steps no]
  obtain st' sm' where
    r: "DecideStage_execute other client sm start_time now sid = (Inr st', sm')"
    and v: "\<forall>k. k \<noteq> ''current_stage'' \<longrightarrow> k \<noteq> ''updated_at''
                \<longrightarrow> map_of st' k = updated_value st ?results k"
    and lg: "log_of sm' st' = store sm l
              @ [PLog (ExecutionLog 7 ''DECIDE'' now COMPLETED ?abilities (Some ''COMMON,ATLAS'')
                   (Some (elapsed_ms start_time now)) None (Some ?results))]"
    by blast
  from assms(3) have keys: "map_of st ''escalation_decision'' \<noteq> None"
    "map_of st ''selected_solution'' \<noteq> None" "map_of st ''decision_reasoning'' \<noteq> None"
    by (simp_all add: known_keys_def)
  have "map_of st' ''escalation_decision'' = Some (PBool True)"
    "map_of st' ''selected_solution'' = Some PNone"
    "map_of st' ''decision_reasoning''
       = Some (PStr (''Escalated due to low solution score ('' @ other (PFloat 0) @ '')''))"
    using v keys by (simp_all add: updated_value_known py_str_def)
  with r lg fb show ?thesis by simp
qed

theorem empty_scores_escalate_witness:
  "\<not> truthy (store (snd demo_ready)) (payload_get [] ''solution_scores'' (PDict []))
   \<and> find_best_solution (store (snd demo_ready)) (PDict []) = Inr (PDict [], PFloat 0)
   \<and> (\<exists>st' sm'. DecideStage_execute (\<lambda>v. ''0.0'') (demo_client []) (snd demo_ready)
                    demo_t0 demo_t1 ''s1'' = (Inr st', sm')
          \<and> map_of st' ''escalation_decision'' = Some (PBool True)
          \<and> map_of st' ''selected_solution'' = Some PNone
          \<and> map_of st' ''decision_reasoning''
              = Some (PStr ''Escalated due to low solution score (0.0)''))"
proof -
  have a: "\<not> truthy (store (snd demo_ready)) (payload_get [] ''solution_scores'' (PDict []))"
    by (simp add: payload_get_def)
  have num: "py_num (PFloat 0) = Some 0" by simp
  from demo_escalation [OF num] obtain details where
    esc: "make_escalation_decision (demo_client []) (store (snd demo_ready)) demo_t1
           demo_state (PDict []) (PFloat 0) = Inr details"
    by blast
  from empty_scores_escalate [OF demo_session(1,2) demo_known_keys demo_evaluate a esc,
      of "\<lambda>v. ''0.0''" demo_t0]
  show ?thesis using a by auto
qed

section \<open>The capability client and the INTAKE stage\<close>

lemma server_mapping_fifteen:
  "length server_mapping = 15 \<and> distinct (map fst server_mapping)"
  by (simp add: server_mapping_def)

text \<open>
  C3. For an ability name that the routing table does not hold, \<open>execute_ability\<close>
  builds the envelope \<open>MCPResponse(success=False, error="Unknown ability: <name>",
  server_type=None)\<close>. The model \<open>MCPResponse\<close> requires a server type, so building
  the envelope raises pydantic's \<open>ValidationError\<close>: the call raises, and returns no
  envelope.
\<close>

theorem unknown_ability_raises:
  assumes "map_of server_mapping name = None"
  shows "execute_ability client h now done name params ctx sid
           = Inl (ValidationError ''MCPResponse'' ''server_type'')"
  using assms by (simp add: execute_ability_def MCPResponse_new_def)

theorem unknown_ability_raises_witness:
  "map_of server_mapping ''summarize_ticket'' = None
   \<and> execute_ability (simulated_client (\<lambda>v. []) demo_t1 CHR ''*'') (\<lambda>a. []) demo_t0 demo_t1
         ''summarize_ticket'' None None (PStr ''s1'')
       = Inl (ValidationError ''MCPResponse'' ''server_type'')"
proof -
  have h: "map_of server_mapping ''summarize_ticket'' = None"
    by (simp add: server_mapping_def)
  from unknown_ability_raises [OF h] h show ?thesis by simp
qed

lemma IntakeStage_failed_result:
  "\<exists>st sm'. IntakeStage_failed sm uuid start_time now payload e = (Inr None, sm')
      \<and> state_history sm' uuid = Some [st]
      \<and> map_of st ''priority'' = Some (PStr ''high'')
      \<and> log_of sm' st =
           [PLog (ExecutionLog 1 ''INTAKE'' now FAILED [''accept_payload''] None
                    (Some (elapsed_ms start_time now)) (Some (str_of_error e)) None)]"
  by (simp add: IntakeStage_failed_def create_initial_state_def alloc_def Let_def state_item_def
      log_stage_execution_def py_last_def py_append_def log_of_def state_get_def deref_def
      split: prod.splits)

text \<open>
  What \<open>_validate_payload\<close> accepts, for a payload whose fields are strings: the three
  required fields are not blank, the email has an \<open>@\<close>, the priority is one of the four
  (or the empty string, which the test \<open>if priority and ...\<close> lets through), and the
  query has at most 5000 characters.
\<close>

lemma validate_payload_accepts:
  assumes "map_of payload ''customer_name'' = Some (PStr cn)"
    and "map_of payload ''email'' = Some (PStr em)"
    and "map_of payload ''query'' = Some (PStr q)"
    and "payload_get payload ''priority'' (PStr ''medium'') = PStr p"
  shows "\<exists>errs. validate_payload other h payload = Inr errs
           \<and> (errs = [] \<longleftrightarrow>
                strip cn \<noteq> [] \<and> strip em \<noteq> [] \<and> strip q \<noteq> [] \<and> contains ''@'' em
                \<and> (p = [] \<or> p \<in> {''low'', ''medium'', ''high'', ''urgent''})
                \<and> length q \<le> 5000)"
proof -
  have s: "\<And>x. strip x \<noteq> [] \<Longrightarrow> x \<noteq> []"
    by (auto simp: strip_def)
  show ?thesis
    using assms s [of cn] s [of em] s [of q]
    by (auto simp: validate_payload_def payload_get_def bindE_def py_in_def py_len_def Let_def)
qed

text \<open>
  C2. When the payload violates a validation rule (or the validation itself raises),
  \<open>IntakeStage.execute\<close> raises nothing to its caller: its handler logs the failure and
  the call returns \<open>None\<close>. The violations are listed only in the log entry of a state
  that the handler makes for the failure, with priority \<open>high\<close>, under a session id of
  its own.
\<close>

theorem intake_failure_is_swallowed:
  assumes "validate_payload other (store sm) payload \<noteq> Inr []"
  shows "\<exists>st sm'. IntakeStage_execute other int_field sm uuid1 uuid2 start_time now payload
                    = (Inr None, sm')
      \<and> get_state_history sm' uuid1 = [st]
      \<and> map_of st ''priority'' = Some (PStr ''high'')
      \<and> log_of sm' st =
           [PLog (ExecutionLog 1 ''INTAKE'' now FAILED [''accept_payload''] None
                    (Some (elapsed_ms start_time now))
                    (Some (case validate_payload other (store sm) payload of
                             Inl e \<Rightarrow> str_of_error e
                           | Inr errs \<Rightarrow> ''Payload validation failed: '' @ join_comma errs))
                    None)]"
proof (cases "validate_payload other (store sm) payload")
  case (Inl e)
  from IntakeStage_failed_result [of sm uuid1 start_time now payload e] Inl
  show ?thesis
    by (auto simp: IntakeStage_execute_def get_state_history_def)
next
  case (Inr errs)
  with assms have ne: "errs \<noteq> []" by simp
  from IntakeStage_failed_result [of sm uuid1 start_time now payload
      "ValueError (''Payload validation failed: '' @ join_comma errs)"] Inr ne
  show ?thesis
    by (auto simp: IntakeStage_execute_def get_state_history_def)
qed

theorem intake_failure_is_swallowed_witness:
  "validate_payload (\<lambda>v. []) (store StateManager_init) demo_invalid
     = Inr [''Missing required field: email'']
   \<and> fst (IntakeStage_execute (\<lambda>v. []) (\<lambda>q. Some (floor q)) StateManager_init ''s1'' ''s2''
            demo_t0 demo_t1 demo_invalid) = Inr None"
proof -
  have v: "validate_payload (\<lambda>v. []) (store StateManager_init) demo_invalid
     = Inr [''Missing required field: email'']"
    by (simp add: validate_payload_def demo_invalid_def payload_get_def bindE_def py_len_def
        strip_def is_space_def)
  then have "validate_payload (\<lambda>v. []) (store StateManager_init) demo_invalid \<noteq> Inr []"
    by simp
  from intake_failure_is_swallowed [OF this, of "\<lambda>q. Some (floor q)" "''s1''" "''s2''" demo_t0 demo_t1]
    v show ?thesis
    by auto
qed

section \<open>The WAIT stage\<close>

lemma created_session:
  assumes "create_initial_state sm sid t cn em q pr tid = (st0, sm0)"
  shows "session_latest sm0 sid st0" and "list_slots st0 (fresh sm) (Suc (fresh sm))"
    and "map_of st0 ''customer_responses'' \<noteq> None"
    and "map_of st0 ''waiting_for_response'' = None"
    and "map_of st0 ''questions_sent_at'' = None"
    and "map_of st0 ''response_completeness'' = None"
  using assms
  by (auto simp: create_initial_state_def Let_def alloc_def session_latest_def list_slots_def
      split: prod.splits)

lemma updated_value_None:
  "(updated_value st us k = None) = (map_of st k = None)"
  by (auto simp: updated_value_def split: option.splits)

lemma update_calls_latest:
  "update_calls sm sid calls = Inr sm' \<Longrightarrow> session_latest sm sid st \<Longrightarrow> list_slots st l e
   \<Longrightarrow> no_list_keys calls
   \<Longrightarrow> \<exists>st'. session_latest sm' sid st' \<and> list_slots st' l e
         \<and> (\<forall>k. k \<noteq> ''current_stage'' \<longrightarrow> k \<noteq> ''updated_at''
                \<longrightarrow> (map_of st' k = None) = (map_of st k = None))"
proof (induction calls arbitrary: sm st)
  case Nil
  then show ?case by auto
next
  case (Cons c calls)
  obtain updates stage now where c: "c = (updates, stage, now)"
    by (cases c) auto
  from Cons.prems(4) c have nk: "map_of updates ''errors'' = None"
    "map_of updates ''execution_log'' = None" and ok: "no_list_keys calls"
    by (auto simp: no_list_keys_def)
  from update_state_total [OF Cons.prems(2,3) nk, of now stage] obtain st1 sm1 where
    u: "update_state sm now sid updates stage = (Inr st1, sm1)"
    and la: "session_latest sm1 sid st1" and sl: "list_slots st1 l e"
    and v: "\<forall>k. k \<noteq> ''current_stage'' \<longrightarrow> k \<noteq> ''updated_at''
                  \<longrightarrow> map_of st1 k = updated_value st updates k"
    by blast
  from Cons.prems(1) c u have rest: "update_calls sm1 sid calls = Inr sm'"
    by simp
  from Cons.IH [OF rest la sl ok] obtain st' where
    "session_latest sm' sid st'" "list_slots st' l e"
    "\<forall>k. k \<noteq> ''current_stage'' \<longrightarrow> k \<noteq> ''updated_at''
                \<longrightarrow> (map_of st' k = None) = (map_of st1 k = None)"
    by blast
  with v show ?case
    by (auto simp: updated_value_None)
qed

text \<open>Every sequence of updates that leaves the two list keys alone returns.\<close>

lemma update_calls_returns:
  "session_latest sm sid st \<Longrightarrow> list_slots st l e \<Longrightarrow> no_list_keys calls
   \<Longrightarrow> \<exists>sm'. update_calls sm sid calls = Inr sm'"
proof (induction calls arbitrary: sm st)
  case Nil
  then show ?case by simp
next
  case (Cons c calls)
  obtain updates stage now where c: "c = (updates, stage, now)"
    by (cases c) auto
  from Cons.prems(3) c have nk: "map_of updates ''errors'' = None"
    "map_of updates ''execution_log'' = None" and ok: "no_list_keys calls"
    by (auto simp: no_list_keys_def)
  from update_state_total [OF Cons.prems(1,2) nk, of now stage] obtain st1 sm1 where
    u: "update_state sm now sid updates stage = (Inr st1, sm1)"
    and la: "session_latest sm1 sid st1" and sl: "list_slots st1 l e"
    by blast
  from Cons.IH [OF la sl ok] u c show ?case by simp
qed

lemma WaitStage_pause:
  assumes "session_latest sm sid st" and "list_slots st l e"
    and "truthy (store sm) (state_get st ''clarification_needed'' (PBool False))"
  shows "\<exists>st' sm'. WaitStage_execute client sm start_time now sid None = (Inr st', sm')
           \<and> session_latest sm' sid st'
           \<and> list_slots st' l e
           \<and> store sm' l \<noteq> []
           \<and> (\<forall>k. k \<noteq> ''current_stage'' \<longrightarrow> k \<noteq> ''updated_at''
                  \<longrightarrow> map_of st' k = updated_value st (wait_marker now) k)
           \<and> log_of sm' st' = store sm l
                @ [PLog (ExecutionLog 5 ''WAIT'' now IN_PROGRESS [] None
                     (Some (elapsed_ms start_time now)) None
                     (Some [(''status'', PStr ''waiting_for_customer_response'')]))]
           \<and> errors_of sm' st' = store sm e @ unknown_notes ''WAIT'' st (wait_marker now)"
proof -
  from assms(1) have g: "get_current_state sm sid = Inr st"
    by (auto simp: session_latest_def get_current_state_def py_last_def split: option.splits)
  have no: "map_of (wait_marker now) ''errors'' = None"
    "map_of (wait_marker now) ''execution_log'' = None"
    by (simp_all add: wait_marker_def)
  from stage_commit [OF assms(1,2) no, of now "''WAIT''" 5 "''WAIT''" IN_PROGRESS "Some []" None
      "Some (elapsed_ms start_time now)" "Some [(''status'', PStr ''waiting_for_customer_response'')]"]
  obtain st' sm1 sm2 where
    a: "update_state sm now sid (wait_marker now) ''WAIT'' = (Inr st', sm1)"
    "log_stage_execution sm1 now sid 5 ''WAIT'' IN_PROGRESS (Some []) None
       (Some (elapsed_ms start_time now)) None
       (Some [(''status'', PStr ''waiting_for_customer_response'')]) = (Inr (), sm2)"
    and b: "session_latest sm2 sid st'" "list_slots st' l e"
    "\<forall>k. k \<noteq> ''current_stage'' \<longrightarrow> k \<noteq> ''updated_at''
                  \<longrightarrow> map_of st' k = updated_value st (wait_marker now) k"
    "log_of sm2 st' = store sm l
                @ [PLog (ExecutionLog 5 ''WAIT'' now IN_PROGRESS [] None
                     (Some (elapsed_ms start_time now)) None
                     (Some [(''status'', PStr ''waiting_for_customer_response'')]))]"
    "errors_of sm2 st' = store sm e @ unknown_notes ''WAIT'' st (wait_marker now)"
    by auto
  from b(2,4) have "store sm2 l \<noteq> []"
    by (simp add: log_of_def state_get_def deref_def list_slots_def)
  moreover from a g assms(3)
  have "WaitStage_execute client sm start_time now sid None = (Inr st', sm2)"
    by (simp add: WaitStage_execute_def wait_marker_def)
  ultimately show ?thesis using b by blast
qed

text \<open>
  C4. In a session made by \<open>create_initial_state\<close> (and extended by any updates that do
  not assign the two list keys) whose latest state has a true \<open>clarification_needed\<close>,
  \<open>WaitStage.execute\<close> without an answer payload returns after logging an entry with
  status \<open>in_progress\<close> and leaves \<open>customer_responses\<close> at \<open>None\<close>. The waiting flag is
  not set: the state has no key \<open>waiting_for_response\<close>, so \<open>update_state\<close> writes the
  note \<open>Unknown state key: waiting_for_response from stage WAIT\<close> to \<open>errors\<close> instead,
  and \<open>is_waiting_for_response\<close> answers \<open>False\<close>.
\<close>

theorem wait_pause_sets_no_flag:
  assumes "create_initial_state sm0 sid t cn em q pr tid = (st0, sm1)"
    and "update_calls sm1 sid calls = Inr sm"
    and "no_list_keys calls"
    and "get_current_state sm sid = Inr st"
    and "truthy (store sm) (state_get st ''clarification_needed'' (PBool False))"
  shows "\<exists>st' sm'. WaitStage_execute client sm start_time now sid None = (Inr st', sm')
      \<and> get_current_state sm' sid = Inr st'
      \<and> map_of st' ''customer_responses'' = Some PNone
      \<and> map_of st' ''waiting_for_response'' = None
      \<and> \<not> is_waiting_for_response sm' sid
      \<and> errors_of sm' st' = errors_of sm st
           @ [PStr ''Unknown state key: waiting_for_response from stage WAIT'',
              PStr ''Unknown state key: questions_sent_at from stage WAIT'']
      \<and> map_option status (as_log (last (log_of sm' st'))) = Some IN_PROGRESS"
proof -
  note c = created_session [OF assms(1)]
  from update_calls_latest [OF assms(2) c(1,2) assms(3)] obtain st1 where
    la: "session_latest sm sid st1" and sl: "list_slots st1 (fresh sm0) (Suc (fresh sm0))"
    and keys: "\<forall>k. k \<noteq> ''current_stage'' \<longrightarrow> k \<noteq> ''updated_at''
                \<longrightarrow> (map_of st1 k = None) = (map_of st0 k = None)"
    by blast
  from la assms(4) have st1: "st1 = st"
    by (auto simp: session_latest_def get_current_state_def py_last_def split: option.splits)
  from keys c(3,4,5) st1 have k: "map_of st ''customer_responses'' \<noteq> None"
    "map_of st ''waiting_for_response'' = None" "map_of st ''questions_sent_at'' = None"
    by simp_all
  from WaitStage_pause [OF la [unfolded st1] sl [unfolded st1] assms(5), of client start_time now]
  obtain st' sm' where
    r: "WaitStage_execute client sm start_time now sid None = (Inr st', sm')"
    and la': "session_latest sm' sid st'"
    and v: "\<forall>k. k \<noteq> ''current_stage'' \<longrightarrow> k \<noteq> ''updated_at''
                  \<longrightarrow> map_of st' k = updated_value st (wait_marker now) k"
    and lg: "log_of sm' st' = store sm (fresh sm0)
                @ [PLog (ExecutionLog 5 ''WAIT'' now IN_PROGRESS [] None
                     (Some (elapsed_ms start_time now)) None
                     (Some [(''status'', PStr ''waiting_for_customer_response'')]))]"
    and er: "errors_of sm' st' = store sm (Suc (fresh sm0))
                @ unknown_notes ''WAIT'' st (wait_marker now)"
    by blast
  from la' have g: "get_current_state sm' sid = Inr st'"
    by (auto simp: session_latest_def get_current_state_def py_last_def split: option.splits)
  have cr: "map_of st' ''customer_responses'' = Some PNone"
    using v k(1) by (simp add: updated_value_known wait_marker_def)
  have wf: "map_of st' ''waiting_for_response'' = None"
    using v k(2) by (simp add: updated_value_None)
  have nw: "\<not> is_waiting_for_response sm' sid"
    using g wf by (simp add: is_waiting_for_response_def state_get_def)
  have e0: "errors_of sm st = store sm (Suc (fresh sm0))"
    using sl st1 by (simp add: errors_of_def state_get_def deref_def list_slots_def)
  have ns: "unknown_notes ''WAIT'' st (wait_marker now)
      = [PStr ''Unknown state key: waiting_for_response from stage WAIT'',
         PStr ''Unknown state key: questions_sent_at from stage WAIT'']"
    using k by (auto simp: unknown_notes_def wait_marker_def)
  from r g cr wf nw er e0 ns lg show ?thesis by simp
qed

lemma WaitStage_answer:
  assumes "session_latest sm sid st" and "list_slots st l e"
    and "truthy (store sm) (state_get st ''clarification_needed'' (PBool False))"
    and "answers \<noteq> []"
    and "extract_answer client (store sm) now st answers = Inr (PDict a)"
    and "\<forall>h. wait_closing_lines h (PDict a) = Inr ()"
  shows "\<exists>st' sm'. WaitStage_execute client sm start_time now sid (Some answers) = (Inr st', sm')
           \<and> session_latest sm' sid st'
           \<and> (\<forall>k. k \<noteq> ''current_stage'' \<longrightarrow> k \<noteq> ''updated_at''
                  \<longrightarrow> map_of st' k = updated_value st (stored_answer now a) k)
           \<and> log_of sm' st' = store sm l
                @ [PLog (ExecutionLog 5 ''WAIT'' now COMPLETED [''extract_answer'', ''store_answer'']
                     (Some ''ATLAS,STATE'') (Some (elapsed_ms start_time now)) None
                     (Some (stored_answer now a)))]"
proof -
  from assms(1) have g: "get_current_state sm sid = Inr st"
    by (auto simp: session_latest_def get_current_state_def py_last_def split: option.splits)
  have no: "map_of (stored_answer now a) ''errors'' = None"
    "map_of (stored_answer now a) ''execution_log'' = None"
    by (simp_all add: stored_answer_def)
  have sa: "store_answer now (PDict a) = Inr (stored_answer now a)"
    by (simp add: store_answer_def stored_answer_def bindE_def py_get_def payload_get_def)
  from stage_commit [OF assms(1,2) no, of now "''WAIT''" 5 "''WAIT''" COMPLETED
      "Some [''extract_answer'', ''store_answer'']" "Some ''ATLAS,STATE''"
      "Some (elapsed_ms start_time now)" "Some (stored_answer now a)"]
  obtain st' sm1 sm2 where
    a: "update_state sm now sid (stored_answer now a) ''WAIT'' = (Inr st', sm1)"
    "log_stage_execution sm1 now sid 5 ''WAIT'' COMPLETED
       (Some [''extract_answer'', ''store_answer'']) (Some ''ATLAS,STATE'')
       (Some (elapsed_ms start_time now)) None (Some (stored_answer now a)) = (Inr (), sm2)"
    and b: "session_latest sm2 sid st'"
    "\<forall>k. k \<noteq> ''current_stage'' \<longrightarrow> k \<noteq> ''updated_at''
                  \<longrightarrow> map_of st' k = updated_value st (stored_answer now a) k"
    "log_of sm2 st' = store sm l
                @ [PLog (ExecutionLog 5 ''WAIT'' now COMPLETED [''extract_answer'', ''store_answer'']
                     (Some ''ATLAS,STATE'') (Some (elapsed_ms start_time now)) None
                     (Some (stored_answer now a)))]"
    by auto
  from a g assms(3,4,5,6) sa
  have "WaitStage_execute client sm start_time now sid (Some answers) = (Inr st', sm2)"
    by (simp add: WaitStage_execute_def)
  with b show ?thesis by blast
qed

theorem wait_pause_sets_no_flag_witness:
  "\<exists>st' sm'. WaitStage_execute (simulated_client (\<lambda>v. []) demo_t1 CHR ''*'') (snd demo_ready)
                 demo_t0 demo_t1 ''s1'' None = (Inr st', sm')
     \<and> map_of st' ''waiting_for_response'' = None
     \<and> \<not> is_waiting_for_response sm' ''s1''
     \<and> map_option status (as_log (last (log_of sm' st'))) = Some IN_PROGRESS
     \<and> (\<exists>st'' sm''. WaitStage_execute (simulated_client (\<lambda>v. []) demo_t1 CHR ''*'') sm'
                       demo_t1 demo_t1 ''s1'' (Some demo_answers) = (Inr st'', sm'')
           \<and> map_option status (as_log (last (log_of sm'' st''))) = Some COMPLETED
           \<and> map_of st'' ''customer_responses'' = Some (PDict demo_extracted)
           \<and> map_of st'' ''response_completeness'' = None)"
proof -
  let ?C = "simulated_client (\<lambda>v. []) demo_t1 CHR ''*''"
  have c: "create_initial_state StateManager_init ''s1'' demo_t0
       (PStr ''Jane Doe'') (PStr ''jane@x.com'') (PStr ''payment failed'') (PStr ''high'') PNone
       = (demo_state0, snd demo_created)"
    using demo_created_eval by (simp add: demo_created_def)
  have u: "update_calls (snd demo_created) ''s1'' [(demo_fields, ''RETRIEVE'', demo_t0)]
     = Inr (snd demo_ready)"
    using demo_ready_eval by (simp add: demo_ready_def)
  have k: "no_list_keys [(demo_fields, ''RETRIEVE'', demo_t0)]"
    by (simp add: no_list_keys_def demo_fields_def)
  have g: "get_current_state (snd demo_ready) ''s1'' = Inr demo_state"
    by (simp add: demo_ready_eval get_current_state_def py_last_def)
  have t: "truthy (store (snd demo_ready)) (state_get demo_state ''clarification_needed'' (PBool False))"
    by (simp add: demo_state_def state_get_def)
  from wait_pause_sets_no_flag [OF c u k g t, of ?C demo_t0 demo_t1]
  obtain st' sm' where
    first: "WaitStage_execute ?C (snd demo_ready) demo_t0 demo_t1 ''s1'' None = (Inr st', sm')"
    "map_of st' ''waiting_for_response'' = None"
    "\<not> is_waiting_for_response sm' ''s1''"
    "map_option status (as_log (last (log_of sm' st'))) = Some IN_PROGRESS"
    by blast
  from WaitStage_pause [OF demo_session(1,2) t, of ?C demo_t0 demo_t1] first(1)
  have la: "session_latest sm' ''s1'' st'" and sl: "list_slots st' 0 1"
    and v: "\<forall>k. k \<noteq> ''current_stage'' \<longrightarrow> k \<noteq> ''updated_at''
                  \<longrightarrow> map_of st' k = updated_value demo_state (wait_marker demo_t1) k"
    by auto
  have vals: "map_of st' ''clarification_needed'' = Some (PBool True)"
    "map_of st' ''query'' = Some (PStr ''payment failed'')"
    "map_of st' ''customer_name'' = Some (PStr ''Jane Doe'')"
    "map_of st' ''session_id'' = Some (PStr ''s1'')"
    "map_of st' ''customer_responses'' = Some PNone"
    "map_of st' ''response_completeness'' = None"
    using v by (simp_all add: updated_value_def demo_state_def wait_marker_def)
  have t': "truthy (store sm') (state_get st' ''clarification_needed'' (PBool False))"
    using vals by (simp add: state_get_def)
  have ne: "demo_answers \<noteq> []" by (simp add: demo_answers_def)
  have ex: "extract_answer ?C (store sm') demo_t1 st' demo_answers = Inr (PDict demo_extracted)"
    using vals
    by (simp add: extract_answer_def bindE_def state_item_def state_get_def execute_ability_def
        server_mapping_def call_atlas_server_def MCPResponse_new_def simulated_client_def
        simulate_atlas_def opt_dict_def Let_def demo_extracted_def)
  have cl: "\<forall>h. wait_closing_lines h (PDict demo_extracted) = Inr ()"
    by (simp add: wait_closing_lines_def bindE_def py_get_def py_len_def percent_format_def
        demo_extracted_def)
  from WaitStage_answer [OF la sl t' ne ex cl, of demo_t1]
  obtain st'' sm'' where
    second: "WaitStage_execute ?C sm' demo_t1 demo_t1 ''s1'' (Some demo_answers) = (Inr st'', sm'')"
    and v2: "\<forall>k. k \<noteq> ''current_stage'' \<longrightarrow> k \<noteq> ''updated_at''
                  \<longrightarrow> map_of st'' k = updated_value st' (stored_answer demo_t1 demo_extracted) k"
    and lg2: "log_of sm'' st'' = store sm' 0
                @ [PLog (ExecutionLog 5 ''WAIT'' demo_t1 COMPLETED [''extract_answer'', ''store_answer'']
                     (Some ''ATLAS,STATE'') (Some (elapsed_ms demo_t1 demo_t1)) None
                     (Some (stored_answer demo_t1 demo_extracted)))]"
    by blast
  have "map_of st'' ''customer_responses'' = Some (PDict demo_extracted)"
    "map_of st'' ''response_completeness'' = None"
    using v2 vals by (simp_all add: updated_value_def stored_answer_def)
  with first second lg2 show ?thesis by auto
qed

section \<open>The UPDATE stage after DECIDE\<close>

lemma updated_value_Cons_known:
  assumes "map_of st key \<noteq> None"
  shows "updated_value (AList.update key val st) rest k = updated_value st ((key, val) # rest) k"
  using assms
  by (auto simp: updated_value_def update_conv' map_add_def split: option.splits)

lemma updated_value_Cons_unknown:
  assumes "map_of st key = None" and "k \<noteq> ''errors''"
  shows "updated_value (AList.update ''errors'' v st) rest k = updated_value st ((key, val) # rest) k"
    and "updated_value st rest k = updated_value st ((key, val) # rest) k"
  using assms
  by (auto simp: updated_value_def update_conv' map_add_def split: option.splits)

lemma apply_updates_value:
  "apply_updates stage us st sm = (Inr st', sm') \<Longrightarrow> k \<noteq> ''errors'' \<Longrightarrow> k \<noteq> ''execution_log''
   \<Longrightarrow> map_of st' k = updated_value st us k"
proof (induction us arbitrary: st sm)
  case Nil
  then show ?case by (auto simp: updated_value_def split: option.splits)
next
  case (Cons u us)
  obtain key val where u: "u = (key, val)" by (cases u) auto
  show ?case
  proof (cases "map_of st key = None")
    case True
    show ?thesis
    proof (cases "map_of st ''errors''")
      case None
      obtain a sm1 where al: "alloc [PStr (''Unknown state key: '' @ key @ '' from stage '' @ stage)] sm
                                = (a, sm1)"
        by (cases "alloc [PStr (''Unknown state key: '' @ key @ '' from stage '' @ stage)] sm") auto
      from Cons.prems(1) u True None al
      have step: "apply_updates stage us (AList.update ''errors'' (PRef a) st) sm1 = (Inr st', sm')"
        by (simp add: Let_def)
      from Cons.IH [OF step Cons.prems(2,3)]
        updated_value_Cons_unknown(1) [OF True Cons.prems(2), of "PRef a" us val] u
      show ?thesis by simp
    next
      case (Some errs)
      from Cons.prems(1) u True Some obtain sm1 where
        step: "apply_updates stage us st sm1 = (Inr st', sm')"
        by (auto simp: Let_def split: sum.splits)
      from Cons.IH [OF step Cons.prems(2,3)]
        updated_value_Cons_unknown(2) [OF True Cons.prems(2), of us val] u
      show ?thesis by simp
    qed
  next
    case False
    obtain v sm1 where lo: "list_object key val sm = (v, sm1)"
      by (cases "list_object key val sm") auto
    from Cons.prems(1) u False lo
    have step: "apply_updates stage us (AList.update key v st) sm1 = (Inr st', sm')"
      by simp
    note ih = Cons.IH [OF step Cons.prems(2,3)]
    show ?thesis
    proof (cases "key = ''errors'' \<or> key = ''execution_log''")
      case True
      with Cons.prems(2,3) have kk: "k \<noteq> key" by auto
      have "updated_value (AList.update key v st) us k = updated_value st (u # us) k"
        using kk u by (auto simp: updated_value_def update_conv' map_add_def split: option.splits)
      with ih show ?thesis by simp
    next
      case nonslot: False
      with lo have "v = val" by (simp add: list_object_def)
      with ih updated_value_Cons_known [OF False, of val us k] u show ?thesis by simp
    qed
  qed
qed

lemma update_state_value:
  assumes "update_state sm now sid us stage = (Inr st', sm')"
  shows "\<exists>st. get_current_state sm sid = Inr st \<and> get_current_state sm' sid = Inr st'
           \<and> (\<forall>k. k \<noteq> ''errors'' \<longrightarrow> k \<noteq> ''execution_log'' \<longrightarrow> k \<noteq> ''current_stage''
                  \<longrightarrow> k \<noteq> ''updated_at'' \<longrightarrow> map_of st' k = updated_value st us k)"
proof -
  from update_state_history [OF assms] obtain hist where
    h: "state_history sm sid = Some hist" "hist \<noteq> []" "state_history sm' sid = Some (hist @ [st'])"
    by blast
  from assms h obtain st1 sm1 where
    au: "apply_updates stage us (last hist) sm = (Inr st1, sm1)" and
    st: "st' = AList.update ''updated_at'' (PTime now)
               (AList.update ''current_stage'' (PStr stage) st1)"
    by (auto simp: update_state_def py_last_def Let_def split: prod.splits sum.splits)
  have "\<forall>k. k \<noteq> ''errors'' \<longrightarrow> k \<noteq> ''execution_log'' \<longrightarrow> k \<noteq> ''current_stage''
                  \<longrightarrow> k \<noteq> ''updated_at'' \<longrightarrow> map_of st' k = updated_value (last hist) us k"
    using apply_updates_value [OF au] st by (simp add: update_conv')
  with h show ?thesis
    by (simp add: get_current_state_def py_last_def)
qed

lemma log_stage_execution_history:
  "log_stage_execution sm now sid i n s a sv d msg out = (r, sm') \<Longrightarrow>
   state_history sm' = state_history sm"
  by (auto simp: log_stage_execution_def py_append_def Let_def
      split: option.splits sum.splits pyval.splits if_splits)

lemma DecideStage_failed_Inl:
  "fst (DecideStage_failed sm start_time now sid e abilities) \<noteq> Inr st"
  by (auto simp: DecideStage_failed_def split: prod.splits sum.splits)

lemma DecideStage_execute_Inr:
  assumes "DecideStage_execute other client sm start_time now sid = (Inr st', sm')"
  shows "\<exists>st results abilities sm1.
           get_current_state sm sid = Inr st
         \<and> DecideStage_steps other client (store sm) now st = Inr (results, abilities)
         \<and> update_state sm now sid results ''DECIDE'' = (Inr st', sm1)
         \<and> state_history sm' = state_history sm1"
proof -
  have no: "\<And>s e a. DecideStage_failed s start_time now sid e a \<noteq> (Inr st', sm')"
    using DecideStage_failed_Inl by (metis fst_conv)
  from assms no obtain st where g: "get_current_state sm sid = Inr st"
    by (cases "get_current_state sm sid") (auto simp: DecideStage_execute_def)
  from assms no g obtain results abilities where
    s: "DecideStage_steps other client (store sm) now st = Inr (results, abilities)"
    by (cases "DecideStage_steps other client (store sm) now st")
       (auto simp: DecideStage_execute_def split: if_splits)
  from assms no g s obtain st1 sm1 where
    u: "update_state sm now sid results ''DECIDE'' = (Inr st1, sm1)"
    by (cases "update_state sm now sid results ''DECIDE''")
       (auto simp: DecideStage_execute_def split: if_splits sum.splits)
  from assms no g s u have "st1 = st'" and
    "\<exists>r. log_stage_execution sm1 now sid 7 ''DECIDE'' COMPLETED (Some abilities)
           (Some ''COMMON,ATLAS'') (Some (elapsed_ms start_time now)) None (Some results)
           = (r, sm')"
    by (auto simp: DecideStage_execute_def split: if_splits sum.splits prod.splits)
  with log_stage_execution_history g s u show ?thesis
    by blast
qed

lemma find_best_solution_no_id:
  assumes "find_best_solution h ev = Inr (best, score)"
  shows "\<exists>bd. best = PDict bd \<and> map_of bd ''id'' = None"
  using assms
  by (auto simp: find_best_solution_def bindE_def
      split: sum.splits pyval.splits if_splits prod.splits option.splits)

lemma DecideStage_steps_selected:
  assumes "DecideStage_steps other client h now st = Inr (results, abilities)"
  shows "\<exists>b sel. map_of (rev results) ''escalation_decision'' = Some (PBool b)
           \<and> map_of (rev results) ''selected_solution'' = Some sel
           \<and> (sel = PNone \<or> (\<exists>bd. sel = PDict bd \<and> map_of bd ''id'' = None))"
proof -
  from assms obtain ev best score where
    fb: "find_best_solution h ev = Inr (best, score)"
    and res: "(\<exists>x c. results = [(''solution_scores'', ev), (''escalation_decision'', PBool True),
                    (''escalation_details'', x), (''selected_solution'', PNone),
                    (''decision_reasoning'', PStr (''Escalated due to low solution score (''
                                                 @ py_str other score @ '')'')),
                    (''decision_timestamp'', PStr (isoformat now)),
                    (''decision_confidence'', c)])
           \<or> (\<exists>c. results = [(''solution_scores'', ev), (''escalation_decision'', PBool False),
                    (''selected_solution'', best),
                    (''decision_reasoning'', PStr (''Auto-resolved with solution score ''
                                                 @ py_str other score)),
                    (''decision_timestamp'', PStr (isoformat now)),
                    (''decision_confidence'', c)])"
    by (auto simp: DecideStage_steps_def split: sum.splits prod.splits if_splits)
  from find_best_solution_no_id [OF fb] res show ?thesis
    by auto
qed

lemma should_close_ticket_rule:
  assumes "\<not> truthy h (state_get st ''escalation_decision'' (PBool False))"
    and "map_of st ''selected_solution'' = Some (PDict sel)"
    and "map_of sel ''id'' = Some (PStr i)" and "i \<noteq> []"
    and "map_of st ''solution_scores'' = Some (PDict ss)"
    and "map_of ss i = Some (PDict entry)"
    and "map_of entry ''overall_score'' = Some x" and "py_num x = Some q"
  shows "should_close_ticket h st = Inr (85 \<le> q)"
proof -
  from assms(3) have "sel \<noteq> []" by auto
  with assms show ?thesis
    by (simp add: should_close_ticket_def state_get_def Let_def bindE_def py_get_def
        py_get_dyn_def dict_find_def py_ge_def)
qed

text \<open>
  C1. The close rule of UPDATE never fires on what DECIDE leaves. After every run of
  \<open>DecideStage.execute\<close> that completes, whatever the recorded score, the latest state
  is one on which \<open>_should_close_ticket\<close> answers \<open>False\<close>: \<open>selected_solution\<close> is
  \<open>None\<close> or the dictionary with the keys \<open>solution_id\<close>, \<open>score\<close> and \<open>details\<close> that
  \<open>_find_best_solution\<close> builds, and \<open>_should_close_ticket\<close> reads the key \<open>id\<close> from it.
  So UPDATE does not invoke \<open>close_ticket\<close>, and \<open>ticket_status\<close> is the status that
  \<open>update_ticket\<close> reports.
\<close>

theorem decide_output_never_closes:
  assumes "DecideStage_execute other client sm start_time now sid = (Inr st', sm')"
  shows "get_current_state sm' sid = Inr st'
         \<and> should_close_ticket (store sm') st' = Inr False"
proof -
  from DecideStage_execute_Inr [OF assms] obtain st results abilities sm1 where
    s: "DecideStage_steps other client (store sm) now st = Inr (results, abilities)"
    and u: "update_state sm now sid results ''DECIDE'' = (Inr st', sm1)"
    and h: "state_history sm' = state_history sm1"
    by blast
  from update_state_value [OF u] obtain st0 where
    g1: "get_current_state sm1 sid = Inr st'"
    and v: "\<forall>k. k \<noteq> ''errors'' \<longrightarrow> k \<noteq> ''execution_log'' \<longrightarrow> k \<noteq> ''current_stage''
                  \<longrightarrow> k \<noteq> ''updated_at'' \<longrightarrow> map_of st' k = updated_value st0 results k"
    by blast
  from g1 h have g: "get_current_state sm' sid = Inr st'"
    by (simp add: get_current_state_def)
  from DecideStage_steps_selected [OF s] obtain b sel where
    e: "map_of (rev results) ''escalation_decision'' = Some (PBool b)"
    and c: "map_of (rev results) ''selected_solution'' = Some sel"
    and f: "sel = PNone \<or> (\<exists>bd. sel = PDict bd \<and> map_of bd ''id'' = None)"
    by blast
  from v e have esc: "\<exists>b'. state_get st' ''escalation_decision'' (PBool False) = PBool b'"
    by (auto simp: state_get_def updated_value_def split: option.splits)
  from v c f have sel: "state_get st' ''selected_solution'' PNone = PNone
      \<or> (\<exists>bd. state_get st' ''selected_solution'' PNone = PDict bd \<and> map_of bd ''id'' = None)"
    by (auto simp: state_get_def updated_value_def split: option.splits)
  from esc sel have "should_close_ticket (store sm') st' = Inr False"
    by (auto simp: should_close_ticket_def Let_def bindE_def py_get_def)
  with g show ?thesis by simp
qed

lemma UpdateStage_execute_commits:
  assumes "session_latest sm sid st" and "list_slots st l e"
    and "truthy (store sm) (state_get st ''escalation_decision'' PNone)
         \<or> truthy (store sm) (state_get st ''selected_solution'' PNone)"
    and "UpdateStage_steps other client (store sm) now st = Inr (results, abilities)"
    and "map_of results ''errors'' = None" and "map_of results ''execution_log'' = None"
  shows "\<exists>st' sm'. UpdateStage_execute other client sm start_time now sid = (Inr st', sm')
           \<and> session_latest sm' sid st'
           \<and> (\<forall>k. k \<noteq> ''current_stage'' \<longrightarrow> k \<noteq> ''updated_at''
                  \<longrightarrow> map_of st' k = updated_value st results k)
           \<and> log_of sm' st' = store sm l
                @ [PLog (ExecutionLog 8 ''UPDATE'' now COMPLETED abilities (Some ''ATLAS'')
                     (Some (elapsed_ms start_time now)) None (Some results))]"
proof -
  from assms(1) have g: "get_current_state sm sid = Inr st"
    by (auto simp: session_latest_def get_current_state_def py_last_def split: option.splits)
  from stage_commit [OF assms(1,2,5,6), of now "''UPDATE''" 8 "''UPDATE''" COMPLETED "Some abilities"
      "Some ''ATLAS''" "Some (elapsed_ms start_time now)" "Some results"]
  obtain st' sm1 sm2 where
    a: "update_state sm now sid results ''UPDATE'' = (Inr st', sm1)"
    "log_stage_execution sm1 now sid 8 ''UPDATE'' COMPLETED (Some abilities)
       (Some ''ATLAS'') (Some (elapsed_ms start_time now)) None (Some results) = (Inr (), sm2)"
    and b: "session_latest sm2 sid st'"
    "\<forall>k. k \<noteq> ''current_stage'' \<longrightarrow> k \<noteq> ''updated_at''
                  \<longrightarrow> map_of st' k = updated_value st results k"
    "log_of sm2 st' = store sm l
                @ [PLog (ExecutionLog 8 ''UPDATE'' now COMPLETED abilities (Some ''ATLAS'')
                     (Some (elapsed_ms start_time now)) None (Some results))]"
    by auto
  from a g assms(3,4)
  have "UpdateStage_execute other client sm start_time now sid = (Inr st', sm2)"
    by (auto simp: UpdateStage_execute_def)
  with b show ?thesis by blast
qed

theorem decide_output_never_closes_witness:
  "\<exists>st' sm'. DecideStage_execute (\<lambda>v. []) (simulated_client (\<lambda>v. []) demo_t1 CHR ''*'') (snd demo_ready)
                 demo_t0 demo_t1 ''s1'' = (Inr st', sm')
     \<and> map_of st' ''escalation_decision'' = Some (PBool False)
     \<and> map_of st' ''selected_solution'' = Some demo_best
     \<and> should_close_ticket (store sm') st' = Inr False
     \<and> (\<exists>st'' sm''. UpdateStage_execute (\<lambda>v. []) (simulated_client (\<lambda>v. []) demo_t1 CHR ''*'') sm'
                       demo_t1 demo_t1 ''s1'' = (Inr st'', sm'')
           \<and> map_of st'' ''ticket_status'' = Some (PStr ''In Progress'')
           \<and> map_option abilities_executed (as_log (last (log_of sm'' st'')))
               = Some [''update_ticket''])"
proof -
  let ?C = "simulated_client (\<lambda>v. []) demo_t1 CHR ''*''"
  let ?results = "[(''solution_scores'', PDict demo_evaluation),
                 (''escalation_decision'', PBool False),
                 (''selected_solution'', demo_best),
                 (''decision_reasoning'',
                    PStr (''Auto-resolved with solution score '' @ py_str (\<lambda>v. []) (PInt 92))),
                 (''decision_timestamp'', PStr (isoformat demo_t1)),
                 (''decision_confidence'', payload_get demo_evaluation ''confidence'' (PFloat 0.5))]"
  have ev: "evaluate_solutions ?C (store (snd demo_ready)) demo_t1 demo_state
              = Inr (PDict demo_evaluation)"
    by (simp add: evaluate_solutions_def bindE_def py_get_def state_get_def state_item_def
        demo_state_def execute_ability_def server_mapping_def call_common_server_def
        MCPResponse_new_def simulated_client_def simulate_common_def opt_dict_def Let_def
        demo_evaluation_def)
  have fb: "find_best_solution (store (snd demo_ready)) (PDict demo_evaluation)
              = Inr (demo_best, PInt 92)"
    by (simp add: find_best_solution_def bindE_def py_get_def demo_evaluation_def py_gt_def
        dict_find_def py_item_def py_get_dyn_def demo_best_def)
  have num: "py_num (PInt 92) = Some 92" by simp
  have ge: "(90::rat) \<le> 92" by simp
  have steps: "DecideStage_steps (\<lambda>v. []) ?C (store (snd demo_ready)) demo_t1 demo_state
                 = Inr (?results, [''solution_evaluation'', ''update_payload''])"
    using DecideStage_steps_high [OF ev fb num ge] .
  have no: "map_of ?results ''errors'' = None" "map_of ?results ''execution_log'' = None"
    by simp_all
  from DecideStage_execute_commits [OF demo_session(1,2) demo_known_keys(2) steps no, of demo_t0]
  obtain st' sm' where
    r: "DecideStage_execute (\<lambda>v. []) ?C (snd demo_ready) demo_t0 demo_t1 ''s1'' = (Inr st', sm')"
    and la: "session_latest sm' ''s1'' st'" and sl: "list_slots st' 0 1"
    and v: "\<forall>k. k \<noteq> ''current_stage'' \<longrightarrow> k \<noteq> ''updated_at''
                  \<longrightarrow> map_of st' k = updated_value demo_state ?results k"
    by blast
  from decide_output_never_closes [OF r]
  have nc: "should_close_ticket (store sm') st' = Inr False" by simp
  have vals: "map_of st' ''escalation_decision'' = Some (PBool False)"
    "map_of st' ''selected_solution'' = Some demo_best"
    "map_of st' ''ticket_id'' = Some (PStr ''TKT-20240115-s1'')"
    "map_of st' ''customer_name'' = Some (PStr ''Jane Doe'')"
    "map_of st' ''session_id'' = Some (PStr ''s1'')"
    "map_of st' ''calculated_flags'' = Some (PDict [(''sla_risk_score'', PInt 75)])"
    "map_of st' ''ticket_status'' = Some (PStr ''open'')"
    "map_of st' ''ticket_updates'' = Some PNone"
    using v by (simp_all add: updated_value_def demo_state_def)
  have ut: "update_ticket ?C (store sm') demo_t1 st'
      = Inr (PDict [(''ticket_updated'', PBool True),
                    (''new_status'', PStr ''In Progress''),
                    (''fields_updated'',
                       PList [PStr ''status'', PStr ''priority'', PStr ''assigned_agent'',
                              PStr ''sla_target'']),
                    (''timestamp'', PStr (isoformat demo_t1))])"
    using vals
    by (simp add: update_ticket_def prepare_update_parameters_def bindE_def state_item_def
        state_get_def py_get_def py_in_def execute_ability_def server_mapping_def
        call_atlas_server_def MCPResponse_new_def simulated_client_def simulate_atlas_def
        opt_dict_def Let_def demo_best_def)
  let ?ur = "PDict [(''ticket_updated'', PBool True),
                    (''new_status'', PStr ''In Progress''),
                    (''fields_updated'',
                       PList [PStr ''status'', PStr ''priority'', PStr ''assigned_agent'',
                              PStr ''sla_target'']),
                    (''timestamp'', PStr (isoformat demo_t1))]"
  have us: "UpdateStage_steps (\<lambda>v. []) ?C (store sm') demo_t1 st'
      = Inr ([(''ticket_updates'', ?ur), (''ticket_status'', PStr ''In Progress'')],
             [''update_ticket''])"
    using ut nc by (simp add: UpdateStage_steps_def py_get_def)
  have tr: "truthy (store sm') (state_get st' ''escalation_decision'' PNone)
         \<or> truthy (store sm') (state_get st' ''selected_solution'' PNone)"
    using vals by (simp add: state_get_def demo_best_def)
  have no2: "map_of [(''ticket_updates'', ?ur), (''ticket_status'', PStr ''In Progress'')]
               ''errors'' = None"
    "map_of [(''ticket_updates'', ?ur), (''ticket_status'', PStr ''In Progress'')]
               ''execution_log'' = None"
    by simp_all
  from UpdateStage_execute_commits [OF la sl tr us no2, of demo_t1]
  obtain st'' sm'' where
    r2: "UpdateStage_execute (\<lambda>v. []) ?C sm' demo_t1 demo_t1 ''s1'' = (Inr st'', sm'')"
    and v2: "\<forall>k. k \<noteq> ''current_stage'' \<longrightarrow> k \<noteq> ''updated_at''
                  \<longrightarrow> map_of st'' k = updated_value st'
                        [(''ticket_updates'', ?ur), (''ticket_status'', PStr ''In Progress'')] k"
    and lg2: "log_of sm'' st'' = store sm' 0
                @ [PLog (ExecutionLog 8 ''UPDATE'' demo_t1 COMPLETED [''update_ticket'']
                     (Some ''ATLAS'') (Some (elapsed_ms demo_t1 demo_t1)) None
                     (Some [(''ticket_updates'', ?ur), (''ticket_status'', PStr ''In Progress'')]))]"
    by blast
  have "map_of st'' ''ticket_status'' = Some (PStr ''In Progress'')"
    using v2 vals by (simp add: updated_value_def)
  with r vals nc r2 lg2 show ?thesis by auto
qed

end
